theory Spec2Isabelle
  imports Complex_Main "HOL-Library.Stream"
begin

section \<open>Data model (core/data_models.py, config.py)\<close>

text \<open>
  Python floats are modelled as \<^typ>\<open>real\<close>: every arithmetic step is exact, so rounding,
  infinities and NaN are outside the model.  A float division whose divisor is zero raises
  ZeroDivisionError in Python; the model returns the error as a value wherever the source
  divides Python floats.  \<open>datetime\<close> is an integer count of microseconds (the resolution
  of Python's datetime), so datetime and timedelta arithmetic is exact integer arithmetic.
\<close>

type_synonym datetime = int

definition timedelta_seconds :: "int \<Rightarrow> int" where
  "timedelta_seconds s = s * 1000000"

definition timedelta_minutes :: "int \<Rightarrow> int" where
  "timedelta_minutes m = m * 60000000"

definition timedelta_hours :: "int \<Rightarrow> int" where
  "timedelta_hours h = h * 3600000000"

datatype error = ZeroDivisionError | TypeError | ValueError | KeyError

datatype SignalType = BUY | SELL | HOLD

datatype DataSource = TWITTER | REDDIT | NEWS | FINANCIAL

text \<open>\<open>TradingSignal\<close>; the field \<open>supporting_data\<close> (a free-form dict) is never read by
  the modelled code and is left out.\<close>

record TradingSignal =
  asset :: string
  timestamp :: datetime
  signal_type :: SignalType
  confidence :: real
  strength :: real
  target_price :: "real option"
  stop_loss :: "real option"
  take_profit :: "real option"
  risk_reward_ratio :: "real option"
  position_size :: real
  reasoning :: string

text \<open>\<open>MarketData\<close>; \<open>additional_metrics\<close> (always the empty dict here) is left out.\<close>

record MarketData =
  md_symbol :: string
  md_timestamp :: datetime
  price :: real
  volume :: real
  change_24h :: real
  market_cap :: "real option"

text \<open>\<open>AggregatedSentiment\<close>.  \<open>sources_breakdown\<close> is a dict from source to
  \<open>{'count', 'avg_sentiment'}\<close>, kept in insertion order as an association list.\<close>

record AggregatedSentiment =
  as_asset :: string
  as_timestamp :: datetime
  window_size :: int
  total_mentions :: nat
  sentiment_score :: real
  as_confidence :: real
  volume_weighted_score :: real
  momentum :: real
  sources_breakdown :: "(DataSource \<times> nat \<times> real) list"

record FearGreedIndex =
  fg_timestamp :: datetime
  overall_score :: real
  sentiment_component :: real
  momentum_component :: real
  volume_component :: real
  correlation_component :: real
  classification :: string

text \<open>The thresholds of \<open>TradingConfig\<close> that the modelled code reads (config.py, the
  module-level instance \<open>trading_config\<close> with the class defaults).\<close>

record TradingConfig =
  EXTREME_FEAR_THRESHOLD :: real
  FEAR_THRESHOLD :: real
  NEUTRAL_THRESHOLD :: real
  GREED_THRESHOLD :: real
  EXTREME_GREED_THRESHOLD :: real

definition trading_config :: TradingConfig where
  "trading_config = \<lparr> EXTREME_FEAR_THRESHOLD = 25, FEAR_THRESHOLD = 45,
     NEUTRAL_THRESHOLD = 55, GREED_THRESHOLD = 75, EXTREME_GREED_THRESHOLD = 90 \<rparr>"

text \<open>Truthiness of an \<open>Optional[float]\<close>: \<open>None\<close> and \<open>0.0\<close> are false.\<close>

definition truthy :: "real option \<Rightarrow> bool" where
  "truthy x = (case x of None \<Rightarrow> False | Some v \<Rightarrow> v \<noteq> 0)"

text \<open>\<open>np.mean\<close> of a list.  The source calls it on non-empty lists only (numpy returns
  NaN on an empty one; here the quotient by zero is 0).\<close>

definition mean :: "real list \<Rightarrow> real" where
  "mean xs = sum_list xs / real (length xs)"


section \<open>Sentiment aggregator (core/signal_generator.py)\<close>

text \<open>One entry of an asset's history: the dict appended by \<open>add_sentiment_data\<close>.\<close>

record SentimentItem =
  it_timestamp :: datetime
  it_sentiment_score :: real
  it_confidence :: real
  relevance :: real
  source :: DataSource
  volume_proxy :: real

text \<open>\<open>sources_breakdown[source]['count'] += 1; ...['avg_sentiment'] += score\<close> on a
  defaultdict whose default is count 0 and sum 0.0.\<close>

fun breakdown_add :: "DataSource \<Rightarrow> real \<Rightarrow> (DataSource \<times> nat \<times> real) list
    \<Rightarrow> (DataSource \<times> nat \<times> real) list" where
  "breakdown_add src sc [] = [(src, 0 + 1, 0 + sc)]"
| "breakdown_add src sc ((k, c, a) # rest) =
     (if k = src then (k, c + 1, a + sc) # rest else (k, c, a) # breakdown_add src sc rest)"

definition breakdown_of :: "SentimentItem list \<Rightarrow> (DataSource \<times> nat \<times> real) list" where
  "breakdown_of recent_data =
     map (\<lambda>(k, c, a). (k, c, if c > 0 then a / real c else a))
       (fold (\<lambda>item acc. breakdown_add (source item) (it_sentiment_score item) acc)
          recent_data [])"

text \<open>
  \<open>SentimentAggregator.get_aggregated_sentiment\<close>.  \<open>sentiment_data\<close> maps an asset to
  its history (the deque, oldest entry first); \<open>now\<close> is the reading of
  \<open>datetime.now()\<close> the call takes.
\<close>

definition get_aggregated_sentiment ::
  "(string \<rightharpoonup> SentimentItem list) \<Rightarrow> datetime \<Rightarrow> string \<Rightarrow> int \<Rightarrow> AggregatedSentiment option" where
  "get_aggregated_sentiment sentiment_data now a wsize =
     (case sentiment_data a of
        None \<Rightarrow> None
      | Some history \<Rightarrow>
          (let cutoff_time = now - timedelta_seconds wsize;
               recent_data = filter (\<lambda>item. it_timestamp item \<ge> cutoff_time) history
           in if recent_data = [] then None
              else
                (let sentiment_scores = map it_sentiment_score recent_data;
                     confidences = map it_confidence recent_data;
                     volumes = map volume_proxy recent_data;
                     total_volume = sum_list volumes;
                     vws = (if total_volume > 0
                            then sum_list (map (\<lambda>(score, vol). score * vol)
                                    (zip sentiment_scores volumes)) / total_volume
                            else mean sentiment_scores);
                     mid_point = length recent_data div 2;
                     mom = (if mid_point > 0
                            then mean (drop mid_point sentiment_scores)
                                 - mean (take mid_point sentiment_scores)
                            else 0)
                 in Some \<lparr> as_asset = a, as_timestamp = now, window_size = wsize,
                      total_mentions = length recent_data,
                      sentiment_score = mean sentiment_scores,
                      as_confidence = mean confidences,
                      volume_weighted_score = vws,
                      momentum = mom,
                      sources_breakdown = breakdown_of recent_data \<rparr>)))"


section \<open>Fear and Greed index (core/signal_generator.py)\<close>

text \<open>The argument \<open>aggregated_sentiments\<close> is a dict; only its values are read, in
  insertion order, so it is an association list here.\<close>

definition calculate_sentiment_component :: "(string \<times> AggregatedSentiment) list \<Rightarrow> real" where
  "calculate_sentiment_component sentiments =
     (if sentiments = [] then 0
      else
        (let (weighted_sentiment, total_weight) =
               fold (\<lambda>s (ws, tw).
                       (let weight = real (total_mentions s) * as_confidence s
                        in (ws + volume_weighted_score s * weight, tw + weight)))
                 (map snd sentiments) (0, 0)
         in if total_weight > 0 then weighted_sentiment / total_weight else 0))"

definition calculate_momentum_component :: "(string \<times> AggregatedSentiment) list \<Rightarrow> real" where
  "calculate_momentum_component sentiments =
     (if sentiments = [] then 0 else mean (map (\<lambda>s. momentum s) (map snd sentiments)))"

definition calculate_volume_component :: "(string \<times> AggregatedSentiment) list \<Rightarrow> real" where
  "calculate_volume_component sentiments =
     (if sentiments = [] then 0
      else
        (let volume_sentiment_product =
               map (\<lambda>s. real (total_mentions s) * sentiment_score s) (map snd sentiments);
             max_product = (case volume_sentiment_product of
                              [] \<Rightarrow> 1
                            | p # ps \<Rightarrow> fold (\<lambda>q m. max m \<bar>q\<bar>) ps \<bar>p\<bar>)
         in if max_product > 0 then mean volume_sentiment_product / max_product else 0))"

definition calculate_correlation_component :: real where
  "calculate_correlation_component = 0"

definition classify_fear_greed :: "real \<Rightarrow> string" where
  "classify_fear_greed score =
     (if score \<le> EXTREME_FEAR_THRESHOLD trading_config then ''Extreme Fear''
      else if score \<le> FEAR_THRESHOLD trading_config then ''Fear''
      else if score \<le> NEUTRAL_THRESHOLD trading_config then ''Neutral''
      else if score \<le> GREED_THRESHOLD trading_config then ''Greed''
      else ''Extreme Greed'')"

definition calculate_fear_greed_index ::
  "datetime \<Rightarrow> (string \<times> AggregatedSentiment) list \<Rightarrow> FearGreedIndex" where
  "calculate_fear_greed_index now aggregated_sentiments =
     (let sc = calculate_sentiment_component aggregated_sentiments;
          mc = calculate_momentum_component aggregated_sentiments;
          vc = calculate_volume_component aggregated_sentiments;
          cc = calculate_correlation_component;
          weighted = sc * 0.4 + mc * 0.25 + vc * 0.2 + cc * 0.15;
          rescaled = (weighted + 1) * 50;
          overall = max 0 (min 100 rescaled)
      in \<lparr> fg_timestamp = now, overall_score = overall, sentiment_component = sc,
           momentum_component = mc, volume_component = vc, correlation_component = cc,
           classification = classify_fear_greed overall \<rparr>)"


section \<open>Signal generator (core/signal_generator.py)\<close>

definition calculate_fear_greed_influence :: "real \<Rightarrow> real" where
  "calculate_fear_greed_influence fg_score =
     (if fg_score \<le> EXTREME_FEAR_THRESHOLD trading_config then 1.3
      else if fg_score \<le> FEAR_THRESHOLD trading_config then 1.1
      else if fg_score \<ge> EXTREME_GREED_THRESHOLD trading_config then 0.7
      else if fg_score \<ge> GREED_THRESHOLD trading_config then 0.9
      else 1.0)"

text \<open>\<open>_calculate_risk_reward\<close>: \<open>all([stop_loss, take_profit, entry_price])\<close> is the
  truthiness of each of the three.\<close>

definition calculate_risk_reward :: "real option \<Rightarrow> real option \<Rightarrow> real option \<Rightarrow> real option" where
  "calculate_risk_reward sl tp ep =
     (if \<not> (truthy sl \<and> truthy tp \<and> truthy ep) then None
      else
        (let risk = \<bar>the ep - the sl\<bar>;
             reward = \<bar>the tp - the ep\<bar>
         in if risk > 0 then Some (reward / risk) else None))"

section \<open>Positions (core/backtesting.py)\<close>

record Position =
  symbol :: string
  signal :: TradingSignal
  entry_price :: real
  entry_time :: datetime
  exit_price :: "real option"
  exit_time :: "datetime option"
  pnl :: real
  is_closed :: bool
  max_favorable_excursion :: real
  max_adverse_excursion :: real

text \<open>\<open>Position.__init__\<close>.\<close>

definition Position_init :: "string \<Rightarrow> TradingSignal \<Rightarrow> real \<Rightarrow> Position" where
  "Position_init sname sg entry =
     \<lparr> symbol = sname, signal = sg, entry_price = entry, entry_time = timestamp sg,
       exit_price = None, exit_time = None, pnl = 0, is_closed = False,
       max_favorable_excursion = 0, max_adverse_excursion = 0 \<rparr>"

text \<open>\<open>Position._check_exit_conditions\<close>: the chain of early returns, in the source's
  order.  \<open>if self.signal.stop_loss:\<close> is the truthiness of the optional float.\<close>

definition check_exit_conditions :: "real \<Rightarrow> datetime \<Rightarrow> Position \<Rightarrow> bool \<times> string" where
  "check_exit_conditions current_price current_time self =
     (let max_hold_time = timedelta_hours 24;
          sg = signal self
      in if current_time - entry_time self > max_hold_time then (True, ''time_exit'')
         else if truthy (stop_loss sg) \<and> signal_type sg = BUY
                 \<and> current_price \<le> the (stop_loss sg) then (True, ''stop_loss'')
         else if truthy (stop_loss sg) \<and> signal_type sg = SELL
                 \<and> current_price \<ge> the (stop_loss sg) then (True, ''stop_loss'')
         else if truthy (take_profit sg) \<and> signal_type sg = BUY
                 \<and> current_price \<ge> the (take_profit sg) then (True, ''take_profit'')
         else if truthy (take_profit sg) \<and> signal_type sg = SELL
                 \<and> current_price \<le> the (take_profit sg) then (True, ''take_profit'')
         else (False, []))"

text \<open>
  Methods that mutate an object return the object as the call leaves it, paired with the
  exception the call raised, if any: a Python exception does not undo the assignments made
  before it.

  \<open>Position.close_position\<close>: the three assignments come first, then the division by
  the entry price.  The \<open>reason\<close> is only logged.
\<close>

definition close_position :: "real \<Rightarrow> datetime \<Rightarrow> string \<Rightarrow> Position \<Rightarrow> Position \<times> error option" where
  "close_position exit_p exit_t reason self =
     (let self1 = self\<lparr> exit_price := Some exit_p, exit_time := Some exit_t, is_closed := True \<rparr>
      in if entry_price self1 = 0 then (self1, Some ZeroDivisionError)
         else
           (let self2 = (if signal_type (signal self1) = BUY
                         then self1\<lparr> pnl := (exit_p - entry_price self1) / entry_price self1 \<rparr>
                         else self1\<lparr> pnl := (entry_price self1 - exit_p) / entry_price self1 \<rparr>)
            in (self2\<lparr> pnl := pnl self2 * position_size (signal self2) \<rparr>, None)))"

text \<open>\<open>Position.update_price\<close>.  The first division by the entry price comes before any
  assignment.\<close>

definition update_price :: "real \<Rightarrow> datetime \<Rightarrow> Position \<Rightarrow> Position \<times> error option" where
  "update_price current_price current_time self =
     (if is_closed self then (self, None)
      else if entry_price self = 0 then (self, Some ZeroDivisionError)
      else
        (let self1 =
               (if signal_type (signal self) = BUY
                then (if current_price > entry_price self
                      then self\<lparr> max_favorable_excursion :=
                             max (max_favorable_excursion self)
                               ((current_price - entry_price self) / entry_price self) \<rparr>
                      else self\<lparr> max_adverse_excursion :=
                             min (max_adverse_excursion self)
                               ((current_price - entry_price self) / entry_price self) \<rparr>)
                else (if current_price < entry_price self
                      then self\<lparr> max_favorable_excursion :=
                             max (max_favorable_excursion self)
                               ((entry_price self - current_price) / entry_price self) \<rparr>
                      else self\<lparr> max_adverse_excursion :=
                             min (max_adverse_excursion self)
                               ((entry_price self - current_price) / entry_price self) \<rparr>));
             (should_exit, exit_reason) = check_exit_conditions current_price current_time self1
         in if should_exit then close_position current_price current_time exit_reason self1
            else (self1, None)))"


section \<open>Portfolio (core/backtesting.py)\<close>

record EquityPoint =
  ec_timestamp :: datetime
  equity :: real
  drawdown :: real

record Portfolio =
  initial_capital :: real
  current_capital :: real
  positions :: "Position list"
  closed_positions :: "Position list"
  equity_curve :: "EquityPoint list"
  daily_returns :: "real list"
  max_drawdown :: real
  peak_equity :: real

definition Portfolio_init :: "real \<Rightarrow> Portfolio" where
  "Portfolio_init capital =
     \<lparr> initial_capital = capital, current_capital = capital, positions = [],
       closed_positions = [], equity_curve = [], daily_returns = [], max_drawdown = 0,
       peak_equity = capital \<rparr>"

text \<open>
  The list \<open>positions\<close> holds references to Position objects, each object once.  A
  reference is modelled by the object's index in the list: \<open>_get_open_position\<close> returns
  the index of the first open position on the symbol, a mutation of the object is a list
  update at its index, and \<open>self.positions.remove(position)\<close> (Position defines no
  \<open>__eq__\<close>, so \<open>remove\<close> finds the object itself) deletes the entry at its index.
\<close>

fun get_open_position :: "string \<Rightarrow> Position list \<Rightarrow> nat option" where
  "get_open_position sname [] = None"
| "get_open_position sname (position # rest) =
     (if symbol position = sname \<and> \<not> is_closed position then Some 0
      else map_option Suc (get_open_position sname rest))"

definition remove_nth :: "nat \<Rightarrow> 'a list \<Rightarrow> 'a list" where
  "remove_nth i xs = take i xs @ drop (Suc i) xs"

text \<open>\<open>Portfolio._settle_closed_position\<close>, for the position at index \<open>i\<close>.  The
  last division is by the capital after the update.\<close>

definition settle_closed_position :: "nat \<Rightarrow> Portfolio \<Rightarrow> Portfolio \<times> error option" where
  "settle_closed_position i self =
     (let position = positions self ! i;
          pnl_amount = pnl position * current_capital self;
          self1 = self\<lparr> current_capital := current_capital self + pnl_amount \<rparr>;
          self2 = self1\<lparr> positions := remove_nth i (positions self1),
                        closed_positions := closed_positions self1 @ [position] \<rparr>
      in if current_capital self2 = 0 then (self2, Some ZeroDivisionError)
         else (self2\<lparr> daily_returns :=
                        daily_returns self2 @ [pnl_amount / current_capital self2] \<rparr>, None))"

text \<open>\<open>Portfolio.add_signal\<close>.  The result is the portfolio as the call leaves it and
  either the exception raised or the boolean returned.\<close>

definition add_signal :: "TradingSignal \<Rightarrow> real \<Rightarrow> Portfolio \<Rightarrow> Portfolio \<times> (error + bool)" where
  "add_signal sg current_price self =
     (if signal_type sg = HOLD then (self, Inr False)
      else
        (let (self1, raised) =
               (case get_open_position (asset sg) (positions self) of
                  None \<Rightarrow> (self, None)
                | Some i \<Rightarrow>
                    (let (closed, e) = close_position current_price (timestamp sg)
                                         ''new_signal'' (positions self ! i);
                         selfc = self\<lparr> positions := (positions self)[i := closed] \<rparr>
                     in case e of
                          Some err \<Rightarrow> (selfc, Some err)
                        | None \<Rightarrow> settle_closed_position i selfc))
         in case raised of
              Some err \<Rightarrow> (self1, Inl err)
            | None \<Rightarrow>
                (let position_value = current_capital self1 * position_size sg
                 in if position_value > current_capital self1 * 0.95 then (self1, Inr False)
                    else (self1\<lparr> positions :=
                                   positions self1 @ [Position_init (asset sg) sg current_price] \<rparr>,
                          Inr True))))"

text \<open>
  The loop of \<open>Portfolio.update_positions\<close> over the copy \<open>self.positions[:]\<close>.  The
  first list is what is left of the copy; \<open>i\<close> is the index in the live list of the object
  at the head of the copy (positions before it were kept, so the index moves on when the
  object stays and stands still when the object is removed).
\<close>

fun update_loop :: "(string \<rightharpoonup> MarketData) \<Rightarrow> Position list \<Rightarrow> nat \<Rightarrow> Portfolio
    \<Rightarrow> Portfolio \<times> error option" where
  "update_loop market_data [] i self = (self, None)"
| "update_loop market_data (position # rest) i self =
     (case market_data (symbol position) of
        None \<Rightarrow> update_loop market_data rest (Suc i) self
      | Some data \<Rightarrow>
          (case update_price (price data) (md_timestamp data) position of
             (position', Some err) \<Rightarrow>
               (self\<lparr> positions := (positions self)[i := position'] \<rparr>, Some err)
           | (position', None) \<Rightarrow>
               (let self1 = self\<lparr> positions := (positions self)[i := position'] \<rparr>
                in if is_closed position'
                   then (case settle_closed_position i self1 of
                           (self2, Some err) \<Rightarrow> (self2, Some err)
                         | (self2, None) \<Rightarrow> update_loop market_data rest i self2)
                   else update_loop market_data rest (Suc i) self1)))"

text \<open>\<open>Portfolio._calculate_current_equity\<close>: the loop over the positions, with the
  equity accumulated so far.\<close>

fun equity_loop :: "(string \<rightharpoonup> MarketData) \<Rightarrow> real \<Rightarrow> Position list \<Rightarrow> real \<Rightarrow> error + real" where
  "equity_loop market_data capital [] eq = Inr eq"
| "equity_loop market_data capital (position # rest) eq =
     (if \<not> is_closed position \<and> market_data (symbol position) \<noteq> None
      then (let current_price = price (the (market_data (symbol position)))
            in if entry_price position = 0 then Inl ZeroDivisionError
               else
                 (let unrealized_pnl =
                        (if signal_type (signal position) = BUY
                         then (current_price - entry_price position) / entry_price position
                         else (entry_price position - current_price) / entry_price position)
                  in equity_loop market_data capital rest
                       (eq + unrealized_pnl * position_size (signal position) * capital)))
      else equity_loop market_data capital rest eq)"

definition calculate_current_equity :: "(string \<rightharpoonup> MarketData) \<Rightarrow> Portfolio \<Rightarrow> error + real" where
  "calculate_current_equity market_data self =
     equity_loop market_data (current_capital self) (positions self) (current_capital self)"

text \<open>\<open>Portfolio.update_positions\<close>; \<open>now\<close> is the reading of \<open>datetime.now()\<close> stamped
  on the equity-curve point.  The point is appended before the peak is updated.\<close>

definition update_positions :: "(string \<rightharpoonup> MarketData) \<Rightarrow> datetime \<Rightarrow> Portfolio
    \<Rightarrow> Portfolio \<times> error option" where
  "update_positions market_data now self =
     (case update_loop market_data (positions self) 0 self of
        (self1, Some err) \<Rightarrow> (self1, Some err)
      | (self1, None) \<Rightarrow>
          (case calculate_current_equity market_data self1 of
             Inl err \<Rightarrow> (self1, Some err)
           | Inr current_equity \<Rightarrow>
               if peak_equity self1 = 0 then (self1, Some ZeroDivisionError)
               else
                 (let self2 = self1\<lparr> equity_curve := equity_curve self1 @
                        [\<lparr> ec_timestamp = now, equity = current_equity,
                           drawdown = (peak_equity self1 - current_equity) / peak_equity self1 \<rparr>] \<rparr>
                  in if current_equity > peak_equity self2
                     then (self2\<lparr> peak_equity := current_equity \<rparr>, None)
                     else
                       (let current_drawdown =
                              (peak_equity self2 - current_equity) / peak_equity self2
                        in (self2\<lparr> max_drawdown := max (max_drawdown self2) current_drawdown \<rparr>,
                            None)))))"

section \<open>Mock market data (core/backtesting.py)\<close>

text \<open>
  \<open>np.random\<close> is never seeded: what it returns is an input of the run.  The generator is
  modelled by the stream of its raw outcomes, one consumed per call: \<open>uniform(low, high)\<close>
  scales an outcome \<open>u\<close> of \<open>[0, 1)\<close> to \<open>low + (high - low) * u\<close>, and
  \<open>normal(loc, scale)\<close> scales a standard normal outcome \<open>z\<close> to \<open>loc + scale * z\<close>.
\<close>

definition uniform :: "real \<Rightarrow> real \<Rightarrow> real stream \<Rightarrow> real \<times> real stream" where
  "uniform low high g = (low + (high - low) * shd g, stl g)"

definition normal :: "real \<Rightarrow> real \<Rightarrow> real stream \<Rightarrow> real \<times> real stream" where
  "normal loc scale g = (loc + scale * shd g, stl g)"

record MockMarketData =
  symbols :: "string list"
  current_prices :: "string \<rightharpoonup> real"
  volatilities :: "string \<rightharpoonup> real"

text \<open>The dict comprehension \<open>{symbol: np.random.uniform(low, high) for symbol in symbols}\<close>.\<close>

fun uniform_dict :: "real \<Rightarrow> real \<Rightarrow> string list \<Rightarrow> (string \<rightharpoonup> real) \<Rightarrow> real stream
    \<Rightarrow> (string \<rightharpoonup> real) \<times> real stream" where
  "uniform_dict low high [] m g = (m, g)"
| "uniform_dict low high (s # rest) m g =
     (let (v, g') = uniform low high g in uniform_dict low high rest (m(s \<mapsto> v)) g')"

definition MockMarketData_init :: "string list \<Rightarrow> real stream \<Rightarrow> MockMarketData \<times> real stream" where
  "MockMarketData_init syms g =
     (let (prices, g1) = uniform_dict 100 50000 syms Map.empty g;
          (vols, g2) = uniform_dict 0.02 0.05 syms Map.empty g1
      in (\<lparr> symbols = syms, current_prices = prices, volatilities = vols \<rparr>, g2))"

text \<open>The body of \<open>for symbol in self.symbols\<close> in \<open>generate_price_data\<close>.  Every key
  looked up is a symbol of \<open>self.symbols\<close>, which \<open>__init__\<close> and the initial \<open>data\<close>
  cover, so no lookup fails.\<close>

fun generate_step :: "datetime \<Rightarrow> string list
    \<Rightarrow> MockMarketData \<times> (string \<rightharpoonup> MarketData list) \<times> real stream
    \<Rightarrow> MockMarketData \<times> (string \<rightharpoonup> MarketData list) \<times> real stream" where
  "generate_step current_date [] st = st"
| "generate_step current_date (s # rest) (self, data, g) =
     (let (change, g1) = normal 0 (the (volatilities self s)) g;
          p1 = the (current_prices self s) * (1 + change);
          p2 = max p1 0.01;
          self' = self\<lparr> current_prices := (current_prices self)(s \<mapsto> p2) \<rparr>;
          (vol, g2) = uniform 1000000 100000000 g1;
          (ch, g3) = uniform (- 0.15) 0.15 g2;
          market_data = \<lparr> md_symbol = s, md_timestamp = current_date, price = p2,
                          volume = vol, change_24h = ch, market_cap = None \<rparr>
      in generate_step current_date rest
           (self', data(s \<mapsto> the (data s) @ [market_data]), g3))"

text \<open>The \<open>while current_date <= end_date\<close> loop of \<open>generate_price_data\<close>, with
  \<open>frequency_minutes\<close> at its default 5 (the only caller passes none).\<close>

function generate_loop :: "datetime \<Rightarrow> datetime
    \<Rightarrow> MockMarketData \<times> (string \<rightharpoonup> MarketData list) \<times> real stream
    \<Rightarrow> MockMarketData \<times> (string \<rightharpoonup> MarketData list) \<times> real stream" where
  "generate_loop current_date end_date st =
     (if current_date \<le> end_date
      then generate_loop (current_date + timedelta_minutes 5) end_date
             (generate_step current_date (symbols (fst st)) st)
      else st)"
  by pat_completeness auto
termination
  by (relation "measure (\<lambda>(c, e, st). nat (e - c + 1))") (auto simp: timedelta_minutes_def)

declare generate_loop.simps [simp del]

definition generate_price_data :: "datetime \<Rightarrow> datetime \<Rightarrow> MockMarketData \<Rightarrow> real stream
    \<Rightarrow> (string \<rightharpoonup> MarketData list)" where
  "generate_price_data start_date end_date self g =
     (let data = fold (\<lambda>s m. m(s \<mapsto> [])) (symbols self) Map.empty
      in fst (snd (generate_loop start_date end_date (self, data, g))))"


section \<open>Backtest engine (core/backtesting.py)\<close>

text \<open>\<open>float('inf')\<close> is the one non-finite float the engine produces on purpose.\<close>

datatype pyfloat = Finite real | Infinity

record BacktestDetails =
  final_equity :: real
  total_profitable_trades :: nat
  total_losing_trades :: nat
  largest_win :: real
  largest_loss :: real
  avg_win :: real
  avg_loss :: real
  max_consecutive_wins :: nat
  max_consecutive_losses :: nat
  bd_equity_curve :: "EquityPoint list"
  all_trades :: "Position list"

record BacktestResult =
  strategy_name :: string
  start_date :: datetime
  end_date :: datetime
  total_return :: real
  sharpe_ratio :: real
  br_max_drawdown :: real
  win_rate :: real
  profit_factor :: pyfloat
  total_trades :: nat
  avg_trade_duration :: real
  details :: BacktestDetails

text \<open>\<open>BacktestEngine._calculate_max_consecutive\<close>.\<close>

definition calculate_max_consecutive :: "Position list \<Rightarrow> nat" where
  "calculate_max_consecutive trades =
     (if trades = [] then 0
      else
        (let sorted_trades = sort_key entry_time trades
         in fst (fold (\<lambda>trade (max_consecutive, current_consecutive).
                         (let current_consecutive' = current_consecutive + 1
                          in (max max_consecutive current_consecutive', current_consecutive')))
                   sorted_trades (0, 0))))"

text \<open>\<open>np.std\<close> (the population standard deviation) and \<open>max(..., default=0)\<close>,
  \<open>min(..., default=0)\<close>.\<close>

definition np_std :: "real list \<Rightarrow> real" where
  "np_std xs = sqrt (mean (map (\<lambda>x. (x - mean xs)\<^sup>2) xs))"

definition max_default0 :: "real list \<Rightarrow> real" where
  "max_default0 xs = (case xs of [] \<Rightarrow> 0 | x # rest \<Rightarrow> fold (\<lambda>y m. max m y) rest x)"

definition min_default0 :: "real list \<Rightarrow> real" where
  "min_default0 xs = (case xs of [] \<Rightarrow> 0 | x # rest \<Rightarrow> fold (\<lambda>y m. min m y) rest x)"

text \<open>
  \<open>BacktestEngine._calculate_results\<close>.  \<open>asdict\<close> is \<open>dataclasses.asdict\<close>, which
  raises TypeError on an object that is not a dataclass instance; \<open>Position\<close> is a plain
  class, so the comprehension for \<open>'all_trades'\<close> raises as soon as there is one closed
  position.  The first division is by the initial capital.
\<close>

definition calculate_results :: "datetime \<Rightarrow> datetime \<Rightarrow> Portfolio \<Rightarrow> error + BacktestResult" where
  "calculate_results start_d end_d portfolio =
     (let final_eq = (if equity_curve portfolio \<noteq> [] then equity (last (equity_curve portfolio))
                      else initial_capital portfolio)
      in if initial_capital portfolio = 0 then Inl ZeroDivisionError
         else
           (let total_ret = (final_eq - initial_capital portfolio) / initial_capital portfolio;
                sharpe = (if daily_returns portfolio \<noteq> []
                          then (if np_std (daily_returns portfolio) > 0
                                then mean (daily_returns portfolio) / np_std (daily_returns portfolio)
                                       * sqrt 252
                                else 0)
                          else 0);
                profitable_trades = filter (\<lambda>p. pnl p > 0) (closed_positions portfolio);
                losing_trades = filter (\<lambda>p. pnl p < 0) (closed_positions portfolio);
                n_trades = length (closed_positions portfolio);
                wr = (if n_trades > 0 then real (length profitable_trades) / real n_trades else 0);
                total_profit = sum_list (map pnl profitable_trades);
                total_loss = \<bar>sum_list (map pnl losing_trades)\<bar>;
                pf = (if total_loss > 0 then Finite (total_profit / total_loss) else Infinity);
                avg_dur =
                  (if closed_positions portfolio \<noteq> []
                   then (let durations =
                               map (\<lambda>p. real_of_int (the (exit_time p) - entry_time p) / 1000000 / 3600)
                                 (filter (\<lambda>p. exit_time p \<noteq> None) (closed_positions portfolio))
                         in if durations \<noteq> [] then mean durations else 0)
                   else 0)
            in if closed_positions portfolio \<noteq> [] then Inl TypeError
               else Inr \<lparr> strategy_name = ''Sentiment-Based Trading'',
                      start_date = start_d, end_date = end_d,
                      total_return = total_ret, sharpe_ratio = sharpe,
                      br_max_drawdown = max_drawdown portfolio,
                      win_rate = wr, profit_factor = pf, total_trades = n_trades,
                      avg_trade_duration = avg_dur,
                      details = \<lparr> final_equity = final_eq,
                        total_profitable_trades = length profitable_trades,
                        total_losing_trades = length losing_trades,
                        largest_win = max_default0 (map pnl profitable_trades),
                        largest_loss = min_default0 (map pnl losing_trades),
                        avg_win = (if profitable_trades \<noteq> [] then mean (map pnl profitable_trades)
                                   else 0),
                        avg_loss = (if losing_trades \<noteq> [] then mean (map pnl losing_trades)
                                    else 0),
                        max_consecutive_wins = calculate_max_consecutive profitable_trades,
                        max_consecutive_losses = calculate_max_consecutive losing_trades,
                        bd_equity_curve = equity_curve portfolio,
                        all_trades = [] \<rparr> \<rparr>))"

text \<open>The dict \<open>signals_by_time\<close> of \<open>run_backtest\<close>.\<close>

definition signals_by_time :: "TradingSignal list \<Rightarrow> (datetime \<rightharpoonup> TradingSignal list)" where
  "signals_by_time signals =
     fold (\<lambda>sg m.
             (let m1 = (if m (timestamp sg) = None then m(timestamp sg \<mapsto> []) else m)
              in m1(timestamp sg \<mapsto> the (m1 (timestamp sg)) @ [sg])))
       signals Map.empty"

text \<open>\<open>min(symbol_data, key=...)\<close>: the first element with the least key; ValueError on
  an empty list.  The key \<open>abs((x.timestamp - current_date).total_seconds())\<close> orders as
  the absolute difference in microseconds does.\<close>

definition closest_data :: "datetime \<Rightarrow> MarketData list \<Rightarrow> error + MarketData" where
  "closest_data current_date symbol_data =
     (case symbol_data of
        [] \<Rightarrow> Inl ValueError
      | x # rest \<Rightarrow>
          Inr (fold (\<lambda>y best. if \<bar>md_timestamp y - current_date\<bar> < \<bar>md_timestamp best - current_date\<bar>
                               then y else best) rest x))"

fun current_market :: "datetime \<Rightarrow> (string \<rightharpoonup> MarketData list) \<Rightarrow> string list
    \<Rightarrow> (string \<rightharpoonup> MarketData) \<Rightarrow> error + (string \<rightharpoonup> MarketData)" where
  "current_market current_date market_data [] cmd = Inr cmd"
| "current_market current_date market_data (s # rest) cmd =
     (case market_data s of
        None \<Rightarrow> Inl KeyError
      | Some symbol_data \<Rightarrow>
          (case closest_data current_date symbol_data of
             Inl err \<Rightarrow> Inl err
           | Inr closest \<Rightarrow> current_market current_date market_data rest (cmd(s \<mapsto> closest))))"

text \<open>\<open>for signal in signals_by_time[current_date]\<close>.\<close>

fun process_signals :: "TradingSignal list \<Rightarrow> (string \<rightharpoonup> MarketData) \<Rightarrow> Portfolio
    \<Rightarrow> Portfolio \<times> error option" where
  "process_signals [] cmd self = (self, None)"
| "process_signals (sg # rest) cmd self =
     (case cmd (asset sg) of
        None \<Rightarrow> process_signals rest cmd self
      | Some data \<Rightarrow>
          (case add_signal sg (price data) self of
             (self1, Inl err) \<Rightarrow> (self1, Some err)
           | (self1, Inr accepted) \<Rightarrow> process_signals rest cmd self1))"

text \<open>The simulation loop of \<open>run_backtest\<close>.  \<open>clock\<close> is the stream of readings of
  \<open>datetime.now()\<close>, one taken by each call of \<open>update_positions\<close>.\<close>

function simulation_loop :: "datetime \<Rightarrow> datetime \<Rightarrow> string list \<Rightarrow> (string \<rightharpoonup> MarketData list)
    \<Rightarrow> (datetime \<rightharpoonup> TradingSignal list) \<Rightarrow> datetime stream \<Rightarrow> Portfolio
    \<Rightarrow> Portfolio \<times> error option" where
  "simulation_loop current_date end_d syms market_data by_time clock self =
     (if current_date \<le> end_d
      then (case current_market current_date market_data syms Map.empty of
              Inl err \<Rightarrow> (self, Some err)
            | Inr cmd \<Rightarrow>
                (case process_signals (case by_time current_date of None \<Rightarrow> [] | Some l \<Rightarrow> l)
                        cmd self of
                   (self1, Some err) \<Rightarrow> (self1, Some err)
                 | (self1, None) \<Rightarrow>
                     (case update_positions cmd (shd clock) self1 of
                        (self2, Some err) \<Rightarrow> (self2, Some err)
                      | (self2, None) \<Rightarrow>
                          simulation_loop (current_date + timedelta_minutes 5) end_d syms
                            market_data by_time (stl clock) self2)))
      else (self, None))"
  by pat_completeness auto
termination
  by (relation "measure (\<lambda>(c, e, rest). nat (e - c + 1))") (auto simp: timedelta_minutes_def)

declare simulation_loop.simps [simp del]

text \<open>
  What a run takes from outside its arguments: the outcomes of the random generator, the
  clock readings, and the order in which \<open>list(set(...))\<close> lists a set of strings (string
  hashing is randomised per process).
\<close>

record Environment =
  rng :: "real stream"
  clock_readings :: "datetime stream"
  set_order :: "string set \<Rightarrow> string list"

text \<open>\<open>BacktestEngine.run_backtest\<close>; an absent (\<open>None\<close>) \<open>symbols\<close> is the empty list,
  which \<open>if not symbols\<close> treats alike.\<close>

definition run_backtest :: "Environment \<Rightarrow> TradingSignal list \<Rightarrow> datetime \<Rightarrow> datetime \<Rightarrow> real
    \<Rightarrow> string list \<Rightarrow> error + BacktestResult" where
  "run_backtest env signals start_d end_d capital symbols_arg =
     (let syms = (if symbols_arg = [] then set_order env (set (map asset signals))
                  else symbols_arg);
          (generator, g) = MockMarketData_init syms (rng env);
          portfolio = Portfolio_init capital;
          market_data = generate_price_data start_d end_d generator g;
          by_time = signals_by_time signals
      in case simulation_loop start_d end_d syms market_data by_time (clock_readings env) portfolio of
           (p, Some err) \<Rightarrow> Inl err
         | (p, None) \<Rightarrow> calculate_results start_d end_d p)"

section \<open>Reference definitions and example inputs\<close>

text \<open>The spec's window predicate: an observation is in the window when
  \<open>now - timestamp \<le> windowSeconds\<close>.\<close>

definition spec_in_window :: "datetime \<Rightarrow> int \<Rightarrow> SentimentItem \<Rightarrow> bool" where
  "spec_in_window now w item = (now - it_timestamp item \<le> timedelta_seconds w)"

text \<open>Scenario A of the spec: three observations of asset X at 0s, 30s and 50s with
  scores 0.8, 0.6 and -0.2, each with volume proxy 1.\<close>

definition scenario_item :: "int \<Rightarrow> real \<Rightarrow> SentimentItem" where
  "scenario_item secs score =
     \<lparr> it_timestamp = timedelta_seconds secs, it_sentiment_score = score, it_confidence = 1,
       relevance = 1, source = TWITTER, volume_proxy = 1 \<rparr>"

definition scenario_A :: "string \<rightharpoonup> SentimentItem list" where
  "scenario_A = [''X'' \<mapsto> [scenario_item 0 0.8, scenario_item 30 0.6, scenario_item 50 (- 0.2)]]"

text \<open>Scenario B of the spec: aggregated windows of two assets whose components come out as
  (0.5, 0.2, 0.1, 0.0).\<close>

definition scenario_B_window :: "nat \<Rightarrow> real \<Rightarrow> AggregatedSentiment" where
  "scenario_B_window n score =
     \<lparr> as_asset = ''X'', as_timestamp = 0, window_size = 300, total_mentions = n,
       sentiment_score = score, as_confidence = 1, volume_weighted_score = 0.5,
       momentum = 0.2, sources_breakdown = [] \<rparr>"

definition scenario_B :: "(string \<times> AggregatedSentiment) list" where
  "scenario_B = [(''X'', scenario_B_window 10 1), (''Y'', scenario_B_window 10 (- 0.8))]"

text \<open>A signal on asset X at time 0 without price targets, a portfolio of 100000 that has
  accepted a BUY of size 0.1 at price 100, and a market snapshot quoting X five minutes
  later.\<close>

definition example_signal :: "SignalType \<Rightarrow> real \<Rightarrow> TradingSignal" where
  "example_signal st sz =
     \<lparr> asset = ''X'', timestamp = 0, signal_type = st, confidence = 1, strength = 1,
       target_price = None, stop_loss = None, take_profit = None, risk_reward_ratio = None,
       position_size = sz, reasoning = [] \<rparr>"

definition portfolio_holding_X :: Portfolio where
  "portfolio_holding_X = fst (add_signal (example_signal BUY 0.1) 100 (Portfolio_init 100000))"

definition market_X :: "real \<Rightarrow> (string \<rightharpoonup> MarketData)" where
  "market_X p = [''X'' \<mapsto> \<lparr> md_symbol = ''X'', md_timestamp = timedelta_minutes 5, price = p,
                    volume = 1000000, change_24h = 0, market_cap = None \<rparr>]"

text \<open>A client's calls on a portfolio.  \<open>call\<close> gives the portfolio as the call leaves
  it, whether it returned or raised, so a sequence of calls covers a client that catches
  the exception and goes on.\<close>

datatype portfolio_call =
    AddSignal TradingSignal real
  | UpdatePositions "string \<rightharpoonup> MarketData" datetime

fun call :: "portfolio_call \<Rightarrow> Portfolio \<Rightarrow> Portfolio" where
  "call (AddSignal sg current_price) self = fst (add_signal sg current_price self)"
| "call (UpdatePositions market_data now) self = fst (update_positions market_data now self)"

text \<open>The symbols of the open (not closed) positions of a list, in list order.\<close>

definition open_symbols :: "Position list \<Rightarrow> string list" where
  "open_symbols ps = map symbol (filter (\<lambda>p. \<not> is_closed p) ps)"

text \<open>A short position on X entered at 100 with the given stop-loss and take-profit
  levels.\<close>

definition short_with_levels :: "real option \<Rightarrow> real option \<Rightarrow> Position" where
  "short_with_levels sl tp =
     Position_init ''X'' ((example_signal SELL 0.1)\<lparr> stop_loss := sl, take_profit := tp \<rparr>) 100"

text \<open>
  Environments for runs of the engine: the generator's outcomes are the given list followed
  by zeros, every clock reading is 0.  With these outcomes X starts at 100 with volatility
  0.02, stays at 100 on the first tick and moves by +2% (rising) or -2% (falling) on the
  second.
\<close>

definition outcomes :: "real list \<Rightarrow> real stream" where
  "outcomes xs = xs @- sconst 0"

definition env_with :: "real list \<Rightarrow> Environment" where
  "env_with xs = \<lparr> rng = outcomes xs, clock_readings = sconst 0, set_order = (\<lambda>S. []) \<rparr>"

definition rising_outcomes :: "real list" where
  "rising_outcomes = [0, 0, 0, 0.5, 0.5, 1, 0.5, 0.5]"

definition falling_outcomes :: "real list" where
  "falling_outcomes = [0, 0, 0, 0.5, 0.5, - 1, 0.5, 0.5]"

text \<open>A second family of environments, with every clock reading at \<open>c\<close>, and outcomes
  that start X at 100/0.93 with volatility 0.035 and move it by -7% and then by +2%: the
  prices are 100 and 102, as with the rising outcomes, from different draws.\<close>

definition env_clock :: "datetime \<Rightarrow> real list \<Rightarrow> Environment" where
  "env_clock c xs = \<lparr> rng = outcomes xs, clock_readings = sconst c, set_order = (\<lambda>S. []) \<rparr>"

definition matching_outcomes :: "real list" where
  "matching_outcomes = [7 / 46407, 0.5, - 2, 0.5, 0.5, 4 / 7, 0.5, 0.5]"

text \<open>What the simulation reads of a generated \<open>MarketData\<close> is its timestamp and its
  price.  The price series of a run is, per symbol, the list of these pairs in the data
  that \<open>run_backtest\<close> generates from its arguments and the environment.\<close>

definition quote :: "MarketData \<Rightarrow> datetime \<times> real" where
  "quote d = (md_timestamp d, price d)"

definition price_series :: "(string \<rightharpoonup> MarketData list) \<Rightarrow> (string \<rightharpoonup> (datetime \<times> real) list)" where
  "price_series market_data = (\<lambda>s. map_option (map quote) (market_data s))"

definition generated_prices :: "Environment \<Rightarrow> TradingSignal list \<Rightarrow> datetime \<Rightarrow> datetime
    \<Rightarrow> string list \<Rightarrow> (string \<rightharpoonup> (datetime \<times> real) list)" where
  "generated_prices env signals start_d end_d symbols_arg =
     (let syms = (if symbols_arg = [] then set_order env (set (map asset signals))
                  else symbols_arg);
          (generator, g) = MockMarketData_init syms (rng env)
      in price_series (generate_price_data start_d end_d generator g))"

text \<open>A portfolio and a result with the wall-clock timestamps of the equity-curve points
  set to 0; every other field, and the equity and drawdown of every point, is kept.\<close>

definition untimed_point :: "EquityPoint \<Rightarrow> EquityPoint" where
  "untimed_point e = e\<lparr> ec_timestamp := 0 \<rparr>"

definition untimed :: "Portfolio \<Rightarrow> Portfolio" where
  "untimed p = p\<lparr> equity_curve := map untimed_point (equity_curve p) \<rparr>"

definition untimed_result :: "BacktestResult \<Rightarrow> BacktestResult" where
  "untimed_result r =
     r\<lparr> details := (details r)\<lparr> bd_equity_curve :=
           map untimed_point (bd_equity_curve (details r)) \<rparr> \<rparr>"


section \<open>The portfolio: accepting signals, the equity curve, open positions\<close>

lemma portfolio_holding_X_eq:
  "portfolio_holding_X =
     (Portfolio_init 100000)\<lparr> positions := [Position_init ''X'' (example_signal BUY 0.1) 100] \<rparr>"
  by (simp add: portfolio_holding_X_def add_signal_def example_signal_def Portfolio_init_def)


text \<open>
  C1 (as stated: a rejected signal leaves the portfolio unchanged) fails.  The portfolio
  holds an open position on X; a BUY on X of size 1 is not HOLD and asks for more than 95%
  of the capital; \<open>add_signal\<close> returns False, yet the old position has been closed at
  the current price and settled: it moved to the closed positions and the capital went
  from 100000 to 102000.
\<close>

theorem add_signal_rejection_changes_state:
  "signal_type (example_signal BUY 1) \<noteq> HOLD
   \<and> current_capital portfolio_holding_X * position_size (example_signal BUY 1)
       > current_capital portfolio_holding_X * 0.95
   \<and> snd (add_signal (example_signal BUY 1) 120 portfolio_holding_X) = Inr False
   \<and> fst (add_signal (example_signal BUY 1) 120 portfolio_holding_X) \<noteq> portfolio_holding_X
   \<and> positions (fst (add_signal (example_signal BUY 1) 120 portfolio_holding_X)) = []
   \<and> length (closed_positions (fst (add_signal (example_signal BUY 1) 120 portfolio_holding_X))) = 1
   \<and> current_capital (fst (add_signal (example_signal BUY 1) 120 portfolio_holding_X)) = 102000"
  by (simp add: portfolio_holding_X_eq add_signal_def example_signal_def Portfolio_init_def
        Position_init_def close_position_def settle_closed_position_def remove_nth_def Let_def)

text \<open>
  C2: the drawdown of the equity-curve point appended by \<open>update_positions\<close> is never
  negative.  The code computes the point's drawdown against the peak of the ticks before and
  raises the peak afterwards: with the position on X bought at 100 and X quoted at 120 the
  equity is 102000, above the peak of 100000, and the recorded drawdown is -1/50.
\<close>

theorem update_positions_negative_drawdown:
  "snd (update_positions (market_X 120) now portfolio_holding_X) = None
   \<and> map equity (equity_curve (fst (update_positions (market_X 120) now portfolio_holding_X))) = [102000]
   \<and> map drawdown (equity_curve (fst (update_positions (market_X 120) now portfolio_holding_X))) = [- 1 / 50]"
  by (simp add: portfolio_holding_X_eq update_positions_def example_signal_def Portfolio_init_def
        Position_init_def update_price_def check_exit_conditions_def truthy_def market_X_def
        timedelta_minutes_def timedelta_hours_def calculate_current_equity_def Let_def)


subsection \<open>One open position per asset\<close>

lemma get_open_position_None:
  "get_open_position s ps = None \<Longrightarrow> s \<notin> set (open_symbols ps)"
  by (induction ps) (auto simp: open_symbols_def split: if_splits)

lemma get_open_position_Some:
  "get_open_position s ps = Some i \<Longrightarrow>
     \<exists>xs q ys. ps = xs @ q # ys \<and> length xs = i \<and> symbol q = s \<and> \<not> is_closed q
       \<and> s \<notin> set (open_symbols xs)"
proof (induction ps arbitrary: i)
  case Nil
  then show ?case by simp
next
  case (Cons p ps)
  show ?case
  proof (cases "symbol p = s \<and> \<not> is_closed p")
    case True
    with Cons.prems have "i = 0" by simp
    with True show ?thesis
      by (intro exI[of _ "[]"] exI[of _ p] exI[of _ ps]) (simp add: open_symbols_def)
  next
    case False
    with Cons.prems obtain j where j: "get_open_position s ps = Some j" "i = Suc j"
      by auto
    from Cons.IH[OF j(1)] obtain xs q ys where
      "ps = xs @ q # ys" "length xs = j" "symbol q = s" "\<not> is_closed q"
      "s \<notin> set (open_symbols xs)" by blast
    with False j(2) show ?thesis
      by (intro exI[of _ "p # xs"] exI[of _ q] exI[of _ ys]) (auto simp: open_symbols_def)
  qed
qed

lemma open_symbols_append: "open_symbols (xs @ ys) = open_symbols xs @ open_symbols ys"
  by (simp add: open_symbols_def)

lemma open_symbols_Cons:
  "open_symbols (q # ys) = (if is_closed q then open_symbols ys else symbol q # open_symbols ys)"
  by (simp add: open_symbols_def)

lemma remove_nth_middle: "remove_nth (length xs) (xs @ q # ys) = xs @ ys"
  by (simp add: remove_nth_def)

lemma positions_settle:
  "positions (fst (settle_closed_position i self)) = remove_nth i (positions self)"
  by (simp add: settle_closed_position_def Let_def)

lemma close_position_closed:
  "is_closed (fst (close_position p t r q))" "symbol (fst (close_position p t r q)) = symbol q"
  by (simp_all add: close_position_def Let_def)

lemma update_price_symbol:
  "symbol (fst (update_price p t q)) = symbol q"
  by (simp add: update_price_def close_position_def Let_def split: prod.splits)

lemma update_price_open:
  "\<not> is_closed (fst (update_price p t q)) \<Longrightarrow> \<not> is_closed q"
  by (auto simp: update_price_def split: if_splits)

lemma distinct_open_replace:
  assumes "distinct (open_symbols (xs @ q # ys))" "symbol q' = symbol q"
    "\<not> is_closed q' \<Longrightarrow> \<not> is_closed q"
  shows "distinct (open_symbols (xs @ q' # ys))"
  using assms by (auto simp: open_symbols_append open_symbols_Cons split: if_splits)

lemma distinct_open_remove:
  "distinct (open_symbols (xs @ q # ys)) \<Longrightarrow> distinct (open_symbols (xs @ ys))"
  by (auto simp: open_symbols_append open_symbols_Cons split: if_splits)

lemma add_signal_positions_cases:
  "positions (fst (add_signal sg cp self)) = positions self
   \<or> (get_open_position (asset sg) (positions self) = None
        \<and> positions (fst (add_signal sg cp self))
            = positions self @ [Position_init (asset sg) sg cp])
   \<or> (\<exists>xs q ys c. positions self = xs @ q # ys \<and> symbol q = asset sg \<and> \<not> is_closed q
         \<and> asset sg \<notin> set (open_symbols xs) \<and> is_closed c
         \<and> (positions (fst (add_signal sg cp self)) = xs @ c # ys
            \<or> positions (fst (add_signal sg cp self)) = xs @ ys
            \<or> positions (fst (add_signal sg cp self))
                = xs @ ys @ [Position_init (asset sg) sg cp]))"
proof (cases "signal_type sg = HOLD")
  case True
  then show ?thesis by (simp add: add_signal_def)
next
  case notHold: False
  show ?thesis
  proof (cases "get_open_position (asset sg) (positions self)")
    case None
    with notHold show ?thesis by (simp add: add_signal_def Let_def)
  next
    case (Some i)
    from get_open_position_Some[OF Some] obtain xs q ys where
      split: "positions self = xs @ q # ys" "length xs = i" "symbol q = asset sg"
        "\<not> is_closed q" "asset sg \<notin> set (open_symbols xs)" by blast
    define c where "c = fst (close_position cp (timestamp sg) ''new_signal'' q)"
    have cl: "is_closed c" by (simp add: c_def close_position_closed)
    have nth: "positions self ! i = q" using split by auto
    have upd: "(positions self)[i := c] = xs @ c # ys" using split by auto
    have "positions (fst (add_signal sg cp self)) = xs @ c # ys
            \<or> positions (fst (add_signal sg cp self)) = xs @ ys
            \<or> positions (fst (add_signal sg cp self))
                = xs @ ys @ [Position_init (asset sg) sg cp]"
      using notHold Some nth upd split(2) remove_nth_middle[of xs c ys]
      by (auto simp: add_signal_def Let_def c_def positions_settle
            split: prod.splits option.splits dest!: arg_cong[where f = fst])
    with split cl show ?thesis by blast
  qed
qed


lemma add_signal_distinct:
  assumes "distinct (open_symbols (positions self))"
  shows "distinct (open_symbols (positions (fst (add_signal sg cp self))))"
proof -
  have new: "open_symbols [Position_init (asset sg) sg cp] = [asset sg]"
    by (simp add: open_symbols_def Position_init_def)
  have superseded: "distinct (open_symbols (xs @ c # ys)) \<and> distinct (open_symbols (xs @ ys))
      \<and> distinct (open_symbols (xs @ ys @ [Position_init (asset sg) sg cp]))"
    if "positions self = xs @ q # ys" "symbol q = asset sg" "\<not> is_closed q" "is_closed c"
    for xs ys and q c :: Position
  proof -
    from assms that(1-3) have "distinct (open_symbols xs @ asset sg # open_symbols ys)"
      by (simp add: open_symbols_append open_symbols_Cons)
    with that(4) show ?thesis
      by (auto simp: open_symbols_append open_symbols_Cons open_symbols_def Position_init_def)
  qed
  from add_signal_positions_cases[of sg cp self] show ?thesis
  proof (elim disjE exE conjE)
    assume "positions (fst (add_signal sg cp self)) = positions self"
    with assms show ?thesis by simp
  next
    assume "get_open_position (asset sg) (positions self) = None"
      and eq: "positions (fst (add_signal sg cp self))
                = positions self @ [Position_init (asset sg) sg cp]"
    from get_open_position_None[OF this(1)] assms show ?thesis
      by (simp add: eq open_symbols_append new)
  qed (use superseded in metis)+
qed

lemma update_loop_distinct:
  assumes "positions self = kept @ snapshot" "i = length kept"
    "distinct (open_symbols (positions self))"
  shows "distinct (open_symbols (positions (fst (update_loop market_data snapshot i self))))"
  using assms
proof (induction snapshot arbitrary: kept i self)
  case Nil
  then show ?case by simp
next
  case (Cons position rest)
  show ?case
  proof (cases "market_data (symbol position)")
    case None
    have "positions self = (kept @ [position]) @ rest" "Suc i = length (kept @ [position])"
      using Cons.prems by simp_all
    from Cons.IH[OF this Cons.prems(3)] None show ?thesis by simp
  next
    case (Some data)
    obtain position' r where up: "update_price (price data) (md_timestamp data) position = (position', r)"
      by (cases "update_price (price data) (md_timestamp data) position")
    have sym: "symbol position' = symbol position"
      using update_price_symbol[of "price data" "md_timestamp data" position] up by simp
    have opn: "\<not> is_closed position' \<Longrightarrow> \<not> is_closed position"
      using update_price_open[of "price data" "md_timestamp data" position] up by simp
    define self1 where "self1 = self\<lparr> positions := (positions self)[i := position'] \<rparr>"
    have p1: "positions self1 = kept @ position' # rest"
      using Cons.prems by (simp add: self1_def)
    have d1: "distinct (open_symbols (positions self1))"
      unfolding p1 using distinct_open_replace[OF _ sym opn] Cons.prems by simp
    show ?thesis
    proof (cases r)
      case (Some err)
      with up \<open>market_data (symbol position) = Some data\<close> d1 show ?thesis
        by (simp add: self1_def)
    next
      case None
      show ?thesis
      proof (cases "is_closed position'")
        case False
        have "positions self1 = (kept @ [position']) @ rest" "Suc i = length (kept @ [position'])"
          using p1 Cons.prems by simp_all
        from Cons.IH[OF this d1] up None False \<open>market_data (symbol position) = Some data\<close>
        show ?thesis by (simp add: self1_def)
      next
        case True
        obtain self2 r2 where st: "settle_closed_position i self1 = (self2, r2)"
          by (cases "settle_closed_position i self1")
        have p2: "positions self2 = kept @ rest"
          using positions_settle[of i self1] st p1 Cons.prems(2) remove_nth_middle[of kept position' rest]
          by simp
        have d2: "distinct (open_symbols (positions self2))"
          unfolding p2 using distinct_open_remove d1 p1 by metis
        show ?thesis
        proof (cases r2)
          case (Some err)
          with up None True st d2 \<open>market_data (symbol position) = Some data\<close> show ?thesis
            by (simp add: self1_def)
        next
          case None2: None
          from Cons.IH[OF p2 Cons.prems(2) d2] up None True st None2
            \<open>market_data (symbol position) = Some data\<close>
          show ?thesis by (simp add: self1_def)
        qed
      qed
    qed
  qed
qed

lemma update_positions_positions:
  "positions (fst (update_positions market_data now self))
     = positions (fst (update_loop market_data (positions self) 0 self))"
  by (simp add: update_positions_def Let_def split: prod.splits option.splits sum.splits)

lemma call_distinct:
  "distinct (open_symbols (positions self)) \<Longrightarrow> distinct (open_symbols (positions (call c self)))"
proof (cases c)
  case (AddSignal sg cp)
  assume "distinct (open_symbols (positions self))"
  with AddSignal show ?thesis by (simp add: add_signal_distinct)
next
  case (UpdatePositions market_data now)
  assume d: "distinct (open_symbols (positions self))"
  have "distinct (open_symbols (positions (fst (update_loop market_data (positions self) 0 self))))"
    by (rule update_loop_distinct[where kept = "[]"]) (simp_all add: d)
  with UpdatePositions show ?thesis by (simp add: update_positions_positions)
qed

lemma fold_call_distinct:
  "distinct (open_symbols (positions self)) \<Longrightarrow>
     distinct (open_symbols (positions (fold call calls self)))"
  by (induction calls arbitrary: self) (simp_all add: call_distinct)

text \<open>
  C6: whatever signals are submitted through \<open>add_signal\<close> and whatever market updates
  through \<open>update_positions\<close>, in any order and starting from a new portfolio, the open
  positions of the portfolio are on pairwise different assets.  Every prefix of a sequence
  of calls is a sequence of calls, so this holds after each call.
\<close>

theorem portfolio_one_open_position_per_asset:
  "distinct (open_symbols (positions (fold call calls (Portfolio_init capital))))"
  by (rule fold_call_distinct) (simp add: Portfolio_init_def open_symbols_def)


section \<open>Consecutive wins and losses\<close>

lemma fold_count:
  "fold (\<lambda>trade (mx, cur). (max mx (Suc cur), Suc cur)) xs (m, c)
     = (if xs = [] then m else max m (c + length xs), c + length xs)"
  by (induction xs arbitrary: m c) (auto simp: max_def)


text \<open>
  C9: \<open>_calculate_max_consecutive\<close> returns the number of trades in the list it is given
  (0 for the empty list): the counter goes up at every trade and is never reset.
\<close>

theorem calculate_max_consecutive_is_length:
  "calculate_max_consecutive trades = length trades"
proof (cases "trades = []")
  case True
  then show ?thesis by (simp add: calculate_max_consecutive_def)
next
  case False
  have len: "length (sort_key entry_time trades) = length trades"
    by simp
  with False have "sort_key entry_time trades \<noteq> []"
    by (metis length_0_conv)
  with False len show ?thesis
    by (simp add: calculate_max_consecutive_def fold_count Let_def)
qed

section \<open>What accepting a signal does\<close>

lemma get_open_position_nth:
  "get_open_position s ps = Some i \<Longrightarrow> i < length ps \<and> symbol (ps ! i) = s \<and> \<not> is_closed (ps ! i)"
  using get_open_position_Some[of s ps i] by (auto simp: nth_append)

lemma add_signal_supersedes:
  assumes "signal_type sg \<noteq> HOLD"
    and "get_open_position (asset sg) (positions self) = Some i"
    and "entry_price (positions self ! i) \<noteq> 0"
    and "current_capital self
           + pnl (fst (close_position cp (timestamp sg) ''new_signal'' (positions self ! i)))
             * current_capital self \<noteq> 0"
  shows "let old = positions self ! i;
             closed = fst (close_position cp (timestamp sg) ''new_signal'' old);
             pnl_amount = pnl closed * current_capital self;
             capital' = current_capital self + pnl_amount;
             settled = self\<lparr> current_capital := capital',
                            positions := remove_nth i (positions self),
                            closed_positions := closed_positions self @ [closed],
                            daily_returns := daily_returns self @ [pnl_amount / capital'] \<rparr>
         in is_closed closed \<and> exit_price closed = Some cp
            \<and> pnl closed = (if signal_type (signal old) = BUY
                             then (cp - entry_price old) / entry_price old
                             else (entry_price old - cp) / entry_price old)
                            * position_size (signal old)
            \<and> add_signal sg cp self =
                (if capital' * position_size sg > capital' * 0.95 then (settled, Inr False)
                 else (settled\<lparr> positions := positions settled
                                   @ [Position_init (asset sg) sg cp] \<rparr>, Inr True))"
proof -
  define old where "old = positions self ! i"
  define closed where "closed = fst (close_position cp (timestamp sg) ''new_signal'' old)"
  from get_open_position_nth[OF assms(2)] have i: "i < length (positions self)" by simp
  have cp_eq: "close_position cp (timestamp sg) ''new_signal'' old = (closed, None)"
    using assms(3) by (simp add: closed_def old_def close_position_def Let_def)
  have rm: "remove_nth i ((positions self)[i := closed]) = remove_nth i (positions self)"
    by (simp add: remove_nth_def)
  have nth: "(positions self)[i := closed] ! i = closed"
    using i by simp
  have nz: "current_capital self + pnl closed * current_capital self \<noteq> 0"
    using assms(4) by (simp add: closed_def old_def)
  have c1: "is_closed closed" "exit_price closed = Some cp"
    by (simp_all add: closed_def close_position_def Let_def)
  have c2: "pnl closed = (if signal_type (signal old) = BUY
                          then (cp - entry_price old) / entry_price old
                          else (entry_price old - cp) / entry_price old)
                         * position_size (signal old)"
    using assms(3) by (simp add: closed_def old_def close_position_def Let_def)
  have c3: "add_signal sg cp self =
          (let pnl_amount = pnl closed * current_capital self;
               capital' = current_capital self + pnl_amount;
               settled = self\<lparr> current_capital := capital',
                              positions := remove_nth i (positions self),
                              closed_positions := closed_positions self @ [closed],
                              daily_returns := daily_returns self @ [pnl_amount / capital'] \<rparr>
           in if capital' * position_size sg > capital' * 0.95 then (settled, Inr False)
              else (settled\<lparr> positions := positions settled
                                @ [Position_init (asset sg) sg cp] \<rparr>, Inr True))"
    using assms(1,2) nz cp_eq rm nth
    by (simp add: add_signal_def Let_def old_def[symmetric] settle_closed_position_def)
  show ?thesis
    unfolding Let_def old_def[symmetric] closed_def[symmetric]
    using c1 c2 c3[unfolded Let_def] by (intro conjI)
qed

text \<open>
  C1, amended.  \<open>add_signal\<close> returns False and leaves the portfolio as it was when the
  signal is HOLD, and when the signal is not HOLD, no open position exists on its asset and
  capital times size exceeds 95% of the capital; with no open position and the guard
  passed, the new position is appended and True returned.  For a signal that is not HOLD
  on an asset with an open position (entered at a non-zero price), that position is first
  closed at the current price and settled: it moves to the closed positions, its P&L is
  applied to the capital and a return is recorded.  The guard is then evaluated on the
  capital after settlement, and only if it passes is the new position opened; the
  settlement stays also when the guard rejects the signal.
\<close>

theorem add_signal_outcome:
  "(signal_type sg = HOLD \<longrightarrow> add_signal sg cp self = (self, Inr False))
   \<and> (signal_type sg \<noteq> HOLD \<and> get_open_position (asset sg) (positions self) = None \<longrightarrow>
        add_signal sg cp self =
          (if current_capital self * position_size sg > current_capital self * 0.95
           then (self, Inr False)
           else (self\<lparr> positions := positions self @ [Position_init (asset sg) sg cp] \<rparr>,
                 Inr True)))
   \<and> (let old = positions self ! i;
            closed = fst (close_position cp (timestamp sg) ''new_signal'' old);
            pnl_amount = pnl closed * current_capital self;
            capital' = current_capital self + pnl_amount;
            settled = self\<lparr> current_capital := capital',
                           positions := remove_nth i (positions self),
                           closed_positions := closed_positions self @ [closed],
                           daily_returns := daily_returns self @ [pnl_amount / capital'] \<rparr>
        in signal_type sg \<noteq> HOLD \<and> get_open_position (asset sg) (positions self) = Some i
             \<and> entry_price old \<noteq> 0 \<and> capital' \<noteq> 0 \<longrightarrow>
           is_closed closed \<and> exit_price closed = Some cp
           \<and> pnl closed = (if signal_type (signal old) = BUY
                            then (cp - entry_price old) / entry_price old
                            else (entry_price old - cp) / entry_price old)
                           * position_size (signal old)
           \<and> add_signal sg cp self =
               (if capital' * position_size sg > capital' * 0.95 then (settled, Inr False)
                else (settled\<lparr> positions := positions settled
                                  @ [Position_init (asset sg) sg cp] \<rparr>, Inr True)))"
proof (intro conjI)
  show "signal_type sg = HOLD \<longrightarrow> add_signal sg cp self = (self, Inr False)"
    by (simp add: add_signal_def)
next
  show "signal_type sg \<noteq> HOLD \<and> get_open_position (asset sg) (positions self) = None \<longrightarrow>
        add_signal sg cp self =
          (if current_capital self * position_size sg > current_capital self * 0.95
           then (self, Inr False)
           else (self\<lparr> positions := positions self @ [Position_init (asset sg) sg cp] \<rparr>,
                 Inr True))"
    by (simp add: add_signal_def Let_def)
next
  show "let old = positions self ! i;
            closed = fst (close_position cp (timestamp sg) ''new_signal'' old);
            pnl_amount = pnl closed * current_capital self;
            capital' = current_capital self + pnl_amount;
            settled = self\<lparr> current_capital := capital',
                           positions := remove_nth i (positions self),
                           closed_positions := closed_positions self @ [closed],
                           daily_returns := daily_returns self @ [pnl_amount / capital'] \<rparr>
        in signal_type sg \<noteq> HOLD \<and> get_open_position (asset sg) (positions self) = Some i
             \<and> entry_price old \<noteq> 0 \<and> capital' \<noteq> 0 \<longrightarrow>
           is_closed closed \<and> exit_price closed = Some cp
           \<and> pnl closed = (if signal_type (signal old) = BUY
                            then (cp - entry_price old) / entry_price old
                            else (entry_price old - cp) / entry_price old)
                           * position_size (signal old)
           \<and> add_signal sg cp self =
               (if capital' * position_size sg > capital' * 0.95 then (settled, Inr False)
                else (settled\<lparr> positions := positions settled
                                  @ [Position_init (asset sg) sg cp] \<rparr>, Inr True))"
    unfolding Let_def
    by (intro impI, elim conjE) (rule add_signal_supersedes[unfolded Let_def]; assumption)
qed

text \<open>
  The amended C1 at concrete inputs: a HOLD signal on the portfolio holding X changes
  nothing; a BUY of size 1 on a new portfolio is rejected and changes nothing; the same BUY
  on the portfolio holding X (index 0, entered at 100) at price 120 is rejected after the
  old position was settled, leaving capital 102000 and no open position.
\<close>

theorem add_signal_outcome_witness:
  "signal_type (example_signal HOLD 0.1) = HOLD
   \<and> add_signal (example_signal HOLD 0.1) 100 portfolio_holding_X = (portfolio_holding_X, Inr False)
   \<and> signal_type (example_signal BUY 1) \<noteq> HOLD
   \<and> get_open_position (asset (example_signal BUY 1)) (positions (Portfolio_init 100000)) = None
   \<and> add_signal (example_signal BUY 1) 100 (Portfolio_init 100000)
       = (Portfolio_init 100000, Inr False)
   \<and> get_open_position (asset (example_signal BUY 1)) (positions portfolio_holding_X) = Some 0
   \<and> entry_price (positions portfolio_holding_X ! 0) \<noteq> 0
   \<and> snd (add_signal (example_signal BUY 1) 120 portfolio_holding_X) = Inr False
   \<and> current_capital (fst (add_signal (example_signal BUY 1) 120 portfolio_holding_X)) = 102000
   \<and> positions (fst (add_signal (example_signal BUY 1) 120 portfolio_holding_X)) = []"
  using add_signal_outcome[of "example_signal HOLD 0.1" 100 portfolio_holding_X 0]
    add_signal_outcome[of "example_signal BUY 1" 100 "Portfolio_init 100000" 0]
    add_signal_outcome[of "example_signal BUY 1" 120 portfolio_holding_X 0]
  by (simp add: portfolio_holding_X_eq example_signal_def Portfolio_init_def Position_init_def
        close_position_def remove_nth_def Let_def)

section \<open>The aggregator's window and momentum\<close>

lemma recent_filter_spec:
  "filter (\<lambda>item. it_timestamp item \<ge> now - timedelta_seconds w) history
     = filter (spec_in_window now w) history"
  by (rule filter_cong) (auto simp: spec_in_window_def)

lemma recent_filter_idem:
  "filter (\<lambda>item. now - timedelta_seconds w \<le> it_timestamp item)
     (filter (spec_in_window now w) history) = filter (spec_in_window now w) history"
  by (induction history) (auto simp: spec_in_window_def)

text \<open>
  C3 (as stated) fails at the spec's own Scenario A.  The query at 60s with a window of 60s
  sees all three observations and returns count 3 and mean score 2/5, but the momentum is
  \<open>mean [0.6, -0.2] - mean [0.8] = -3/5\<close>, not -9/10: the split index is
  \<open>len // 2 = 1\<close>, so with an odd count the later half is the longer one.
\<close>

theorem scenario_A_momentum:
  "map_option total_mentions (get_aggregated_sentiment scenario_A (timedelta_seconds 60) ''X'' 60)
     = Some 3
   \<and> map_option sentiment_score
        (get_aggregated_sentiment scenario_A (timedelta_seconds 60) ''X'' 60) = Some (2 / 5)
   \<and> map_option momentum
        (get_aggregated_sentiment scenario_A (timedelta_seconds 60) ''X'' 60) = Some (- 3 / 5)
   \<and> map_option momentum
        (get_aggregated_sentiment scenario_A (timedelta_seconds 60) ''X'' 60) \<noteq> Some (- 9 / 10)"
  by (simp add: get_aggregated_sentiment_def scenario_A_def scenario_item_def
        timedelta_seconds_def mean_def)

text \<open>
  C3, amended.  When the query returns a window, with \<open>n\<close> the number of observations in
  it and their scores taken in the order of the history: the count is \<open>n\<close>, the mean
  score is their mean, and the momentum is the mean of the scores from index
  \<open>n div 2\<close> on (the later, and for odd \<open>n\<close> longer, part) minus the mean of the first
  \<open>n div 2\<close> scores when \<open>n \<ge> 2\<close>, and zero otherwise.
\<close>

theorem momentum_later_minus_earlier:
  assumes "get_aggregated_sentiment sd now a w = Some r" and "sd a = Some history"
  shows "(let scores = map it_sentiment_score (filter (spec_in_window now w) history);
              n = length scores
          in total_mentions r = n
             \<and> sentiment_score r = mean scores
             \<and> momentum r = (if 2 \<le> n
                              then mean (drop (n div 2) scores) - mean (take (n div 2) scores)
                              else 0))"
proof -
  have "2 \<le> n \<longleftrightarrow> 0 < n div 2" for n :: nat
    by presburger
  with assms show ?thesis
    by (auto simp: get_aggregated_sentiment_def recent_filter_spec Let_def split: if_splits)
qed

text \<open>The amended C3 at Scenario A: count 3, mean score 2/5, momentum
  \<open>mean [0.6, -0.2] - mean [0.8] = -3/5\<close>.\<close>

theorem momentum_later_minus_earlier_witness:
  "get_aggregated_sentiment scenario_A (timedelta_seconds 60) ''X'' 60 \<noteq> None
   \<and> scenario_A ''X'' \<noteq> None
   \<and> total_mentions (the (get_aggregated_sentiment scenario_A (timedelta_seconds 60) ''X'' 60)) = 3
   \<and> sentiment_score (the (get_aggregated_sentiment scenario_A (timedelta_seconds 60) ''X'' 60))
       = 2 / 5
   \<and> momentum (the (get_aggregated_sentiment scenario_A (timedelta_seconds 60) ''X'' 60))
       = mean [0.6, - 0.2] - mean [0.8]
   \<and> momentum (the (get_aggregated_sentiment scenario_A (timedelta_seconds 60) ''X'' 60))
       = - 3 / 5"
proof -
  have ne: "get_aggregated_sentiment scenario_A (timedelta_seconds 60) ''X'' 60 \<noteq> None"
    by (simp add: get_aggregated_sentiment_def scenario_A_def scenario_item_def
          timedelta_seconds_def)
  then have s: "get_aggregated_sentiment scenario_A (timedelta_seconds 60) ''X'' 60
             = Some (the (get_aggregated_sentiment scenario_A (timedelta_seconds 60) ''X'' 60))"
    by simp
  have h: "scenario_A ''X''
             = Some [scenario_item 0 0.8, scenario_item 30 0.6, scenario_item 50 (- 0.2)]"
    by (simp add: scenario_A_def)
  have "total_mentions (the (get_aggregated_sentiment scenario_A (timedelta_seconds 60) ''X'' 60)) = 3
   \<and> sentiment_score (the (get_aggregated_sentiment scenario_A (timedelta_seconds 60) ''X'' 60))
       = 2 / 5
   \<and> momentum (the (get_aggregated_sentiment scenario_A (timedelta_seconds 60) ''X'' 60))
       = - 3 / 5"
    using momentum_later_minus_earlier[OF s h]
    by (simp add: spec_in_window_def scenario_item_def timedelta_seconds_def mean_def Let_def)
  with ne h show ?thesis
    by (simp add: mean_def)
qed

text \<open>
  C7: the query returns None exactly when the asset has no history or no observation of
  its history satisfies \<open>now - timestamp \<le> window\<close>; when it returns a window, its
  statistics are those of exactly the observations that satisfy it (their number, the mean
  of their scores and confidences, their breakdown by source), and the whole result is the
  one a history made of these observations alone would give.
\<close>

theorem window_correctness:
  "(get_aggregated_sentiment sd now a w = None
      \<longleftrightarrow> (sd a = None
           \<or> (\<exists>history. sd a = Some history \<and> filter (spec_in_window now w) history = [])))
   \<and> (sd a = Some history \<and> get_aggregated_sentiment sd now a w = Some r \<longrightarrow>
        (let included = filter (spec_in_window now w) history
         in set included = {item \<in> set history. now - it_timestamp item \<le> timedelta_seconds w}
            \<and> total_mentions r = length included
            \<and> sentiment_score r = mean (map it_sentiment_score included)
            \<and> as_confidence r = mean (map it_confidence included)
            \<and> sources_breakdown r = breakdown_of included
            \<and> get_aggregated_sentiment [a \<mapsto> included] now a w = Some r))"
  by (auto simp: get_aggregated_sentiment_def recent_filter_spec recent_filter_idem Let_def
        spec_in_window_def[abs_def]
        simp del: filter_filter split: option.splits if_splits)

text \<open>
  C7 at Scenario A: at 60s a window of 20s holds only the observation of 50s (count 1,
  mean score -1/5); a window of 5s holds none, and the query returns None, as it does for
  an asset without history.
\<close>

theorem window_correctness_witness:
  "scenario_A ''X'' = Some [scenario_item 0 0.8, scenario_item 30 0.6, scenario_item 50 (- 0.2)]
   \<and> get_aggregated_sentiment scenario_A (timedelta_seconds 60) ''X'' 20 \<noteq> None
   \<and> total_mentions (the (get_aggregated_sentiment scenario_A (timedelta_seconds 60) ''X'' 20)) = 1
   \<and> sentiment_score (the (get_aggregated_sentiment scenario_A (timedelta_seconds 60) ''X'' 20))
       = - 1 / 5
   \<and> get_aggregated_sentiment scenario_A (timedelta_seconds 60) ''X'' 5 = None
   \<and> get_aggregated_sentiment scenario_A (timedelta_seconds 60) ''Y'' 60 = None"
proof -
  have h: "scenario_A ''X''
             = Some [scenario_item 0 0.8, scenario_item 30 0.6, scenario_item 50 (- 0.2)]"
    by (simp add: scenario_A_def)
  have ne: "get_aggregated_sentiment scenario_A (timedelta_seconds 60) ''X'' 20 \<noteq> None"
    by (simp add: get_aggregated_sentiment_def scenario_A_def scenario_item_def
          timedelta_seconds_def)
  then have s: "get_aggregated_sentiment scenario_A (timedelta_seconds 60) ''X'' 20
             = Some (the (get_aggregated_sentiment scenario_A (timedelta_seconds 60) ''X'' 20))"
    by simp
  have in20: "total_mentions (the (get_aggregated_sentiment scenario_A (timedelta_seconds 60) ''X'' 20)) = 1
     \<and> sentiment_score (the (get_aggregated_sentiment scenario_A (timedelta_seconds 60) ''X'' 20))
         = - 1 / 5"
    using window_correctness[of scenario_A "timedelta_seconds 60" "''X''" 20
        "[scenario_item 0 0.8, scenario_item 30 0.6, scenario_item 50 (- 0.2)]"
        "the (get_aggregated_sentiment scenario_A (timedelta_seconds 60) ''X'' 20)"] h s
    by (simp add: spec_in_window_def scenario_item_def timedelta_seconds_def mean_def Let_def)
  have none5: "get_aggregated_sentiment scenario_A (timedelta_seconds 60) ''X'' 5 = None"
    using window_correctness[of scenario_A "timedelta_seconds 60" "''X''" 5] h
    by (simp add: spec_in_window_def scenario_item_def timedelta_seconds_def)
  have noneY: "get_aggregated_sentiment scenario_A (timedelta_seconds 60) ''Y'' 60 = None"
    using window_correctness[of scenario_A "timedelta_seconds 60" "''Y''" 60]
    by (simp add: scenario_A_def)
  from h ne in20 none5 noneY show ?thesis by simp
qed


section \<open>The composite index and its influence on signal strength\<close>

text \<open>
  C8: the overall score of the index computed from any aggregated sentiments is the weighted
  sum (weights 0.4, 0.25, 0.2, 0.15) of the four components computed from those sentiments,
  plus one, times 50, clamped to [0, 100]; the index reports exactly these components, and
  its classification is that of the overall score.  For Scenario B the components computed
  from the input are (0.5, 0.2, 0.1, 0), the weighted sum is 0.27, the overall score 63.5
  and the classification Greed.
\<close>

theorem overall_score_formula:
  "(let r = calculate_fear_greed_index now sentiments
    in overall_score r
         = max 0 (min 100 ((calculate_sentiment_component sentiments * 0.4
                            + calculate_momentum_component sentiments * 0.25
                            + calculate_volume_component sentiments * 0.2
                            + calculate_correlation_component * 0.15 + 1) * 50))
       \<and> sentiment_component r = calculate_sentiment_component sentiments
       \<and> momentum_component r = calculate_momentum_component sentiments
       \<and> volume_component r = calculate_volume_component sentiments
       \<and> correlation_component r = calculate_correlation_component
       \<and> overall_score r
         = max 0 (min 100 ((sentiment_component r * 0.4 + momentum_component r * 0.25
                            + volume_component r * 0.2 + correlation_component r * 0.15 + 1) * 50))
       \<and> 0 \<le> overall_score r \<and> overall_score r \<le> 100
       \<and> classification r = classify_fear_greed (overall_score r))
   \<and> calculate_sentiment_component scenario_B = 0.5
   \<and> calculate_momentum_component scenario_B = 0.2
   \<and> calculate_volume_component scenario_B = 0.1
   \<and> calculate_correlation_component = 0
   \<and> calculate_sentiment_component scenario_B * 0.4
       + calculate_momentum_component scenario_B * 0.25
       + calculate_volume_component scenario_B * 0.2
       + calculate_correlation_component * 0.15 = 0.27
   \<and> (let r = calculate_fear_greed_index now scenario_B
       in sentiment_component r = 0.5 \<and> momentum_component r = 0.2
          \<and> volume_component r = 0.1 \<and> correlation_component r = 0
          \<and> sentiment_component r * 0.4 + momentum_component r * 0.25
              + volume_component r * 0.2 + correlation_component r * 0.15 = 0.27
          \<and> overall_score r = 63.5
          \<and> classification r = ''Greed'')"
proof -
  have general: "let r = calculate_fear_greed_index now sentiments
    in overall_score r
         = max 0 (min 100 ((calculate_sentiment_component sentiments * 0.4
                            + calculate_momentum_component sentiments * 0.25
                            + calculate_volume_component sentiments * 0.2
                            + calculate_correlation_component * 0.15 + 1) * 50))
       \<and> sentiment_component r = calculate_sentiment_component sentiments
       \<and> momentum_component r = calculate_momentum_component sentiments
       \<and> volume_component r = calculate_volume_component sentiments
       \<and> correlation_component r = calculate_correlation_component
       \<and> overall_score r
         = max 0 (min 100 ((sentiment_component r * 0.4 + momentum_component r * 0.25
                            + volume_component r * 0.2 + correlation_component r * 0.15 + 1) * 50))
       \<and> 0 \<le> overall_score r \<and> overall_score r \<le> 100
       \<and> classification r = classify_fear_greed (overall_score r)"
    by (simp add: calculate_fear_greed_index_def Let_def)
  have c: "calculate_sentiment_component scenario_B = 0.5"
    "calculate_momentum_component scenario_B = 0.2"
    "calculate_volume_component scenario_B = 0.1"
    by (simp_all add: scenario_B_def scenario_B_window_def calculate_sentiment_component_def
          calculate_momentum_component_def calculate_volume_component_def mean_def Let_def)
  have z: "calculate_correlation_component = 0"
    by (simp add: calculate_correlation_component_def)
  have s: "calculate_sentiment_component scenario_B * 0.4
       + calculate_momentum_component scenario_B * 0.25
       + calculate_volume_component scenario_B * 0.2
       + calculate_correlation_component * 0.15 = 0.27"
    by (simp add: c z)
  have b: "let r = calculate_fear_greed_index now scenario_B
       in sentiment_component r = 0.5 \<and> momentum_component r = 0.2
          \<and> volume_component r = 0.1 \<and> correlation_component r = 0
          \<and> sentiment_component r * 0.4 + momentum_component r * 0.25
              + volume_component r * 0.2 + correlation_component r * 0.15 = 0.27
          \<and> overall_score r = 63.5
          \<and> classification r = ''Greed''"
    by (simp add: calculate_fear_greed_index_def c calculate_correlation_component_def
          classify_fear_greed_def trading_config_def Let_def)
  from general c z s b show ?thesis by blast
qed

text \<open>
  C5 (as stated) fails: the score 60 lies in [0, 100] and is classified Greed, but its
  influence is 1.0, not 0.9; the score 80 is classified Extreme Greed, but its influence is
  0.9, not 0.7.
\<close>

theorem greed_bucket_influence_mismatch:
  "0 \<le> (60::real) \<and> (60::real) \<le> 100
   \<and> classify_fear_greed 60 = ''Greed'' \<and> calculate_fear_greed_influence 60 = 1
   \<and> calculate_fear_greed_influence 60 \<noteq> 0.9
   \<and> classify_fear_greed 80 = ''Extreme Greed'' \<and> calculate_fear_greed_influence 80 = 0.9
   \<and> calculate_fear_greed_influence 80 \<noteq> 0.7"
  by (simp add: classify_fear_greed_def calculate_fear_greed_influence_def trading_config_def)

text \<open>
  C5, amended.  The influence has thresholds of its own: 1.3 for a score up to 25, 1.1 above
  25 and up to 45, 1.0 above 45 and below 75, 0.9 from 75 and below 90, 0.7 from 90.  It
  agrees with the classification for Extreme Fear, Fear and Neutral scores, for Greed only
  at the score 75, and for Extreme Greed only from 90.
\<close>

theorem fear_greed_influence_buckets:
  "(s \<le> 25 \<longrightarrow> classify_fear_greed s = ''Extreme Fear'' \<and> calculate_fear_greed_influence s = 1.3)
   \<and> (25 < s \<and> s \<le> 45 \<longrightarrow>
        classify_fear_greed s = ''Fear'' \<and> calculate_fear_greed_influence s = 1.1)
   \<and> (45 < s \<and> s \<le> 55 \<longrightarrow>
        classify_fear_greed s = ''Neutral'' \<and> calculate_fear_greed_influence s = 1.0)
   \<and> (55 < s \<and> s < 75 \<longrightarrow>
        classify_fear_greed s = ''Greed'' \<and> calculate_fear_greed_influence s = 1.0)
   \<and> (s = 75 \<longrightarrow> classify_fear_greed s = ''Greed'' \<and> calculate_fear_greed_influence s = 0.9)
   \<and> (75 < s \<and> s < 90 \<longrightarrow>
        classify_fear_greed s = ''Extreme Greed'' \<and> calculate_fear_greed_influence s = 0.9)
   \<and> (90 \<le> s \<longrightarrow>
        classify_fear_greed s = ''Extreme Greed'' \<and> calculate_fear_greed_influence s = 0.7)"
  by (simp add: classify_fear_greed_def calculate_fear_greed_influence_def trading_config_def)

text \<open>The amended C5 at one score of each of its seven ranges.\<close>

theorem fear_greed_influence_buckets_witness:
  "classify_fear_greed 10 = ''Extreme Fear'' \<and> calculate_fear_greed_influence 10 = 1.3
   \<and> classify_fear_greed 30 = ''Fear'' \<and> calculate_fear_greed_influence 30 = 1.1
   \<and> classify_fear_greed 50 = ''Neutral'' \<and> calculate_fear_greed_influence 50 = 1.0
   \<and> classify_fear_greed 60 = ''Greed'' \<and> calculate_fear_greed_influence 60 = 1.0
   \<and> classify_fear_greed 75 = ''Greed'' \<and> calculate_fear_greed_influence 75 = 0.9
   \<and> classify_fear_greed 80 = ''Extreme Greed'' \<and> calculate_fear_greed_influence 80 = 0.9
   \<and> classify_fear_greed 95 = ''Extreme Greed'' \<and> calculate_fear_greed_influence 95 = 0.7"
  using fear_greed_influence_buckets[of 10] fear_greed_influence_buckets[of 30]
    fear_greed_influence_buckets[of 50] fear_greed_influence_buckets[of 60]
    fear_greed_influence_buckets[of 75] fear_greed_influence_buckets[of 80]
    fear_greed_influence_buckets[of 95]
  by simp


section \<open>Price levels of exactly zero\<close>

text \<open>
  C10: a stop-loss of exactly 0 never triggers the stop-loss exit, and the exit check
  answers as it does without a stop-loss; likewise for a take-profit of exactly 0; and the
  risk-reward ratio is None whenever the stop-loss, the take-profit or the entry price is
  None or 0.
\<close>

theorem zero_levels_are_absent:
  "(stop_loss (signal pos) = Some 0 \<longrightarrow>
      snd (check_exit_conditions cp ct pos) \<noteq> ''stop_loss''
      \<and> check_exit_conditions cp ct pos
          = check_exit_conditions cp ct (pos\<lparr> signal := (signal pos)\<lparr> stop_loss := None \<rparr> \<rparr>))
   \<and> (take_profit (signal pos) = Some 0 \<longrightarrow>
      snd (check_exit_conditions cp ct pos) \<noteq> ''take_profit''
      \<and> check_exit_conditions cp ct pos
          = check_exit_conditions cp ct (pos\<lparr> signal := (signal pos)\<lparr> take_profit := None \<rparr> \<rparr>))
   \<and> (sl = None \<or> sl = Some 0 \<or> tp = None \<or> tp = Some 0 \<or> ep = None \<or> ep = Some 0 \<longrightarrow>
      calculate_risk_reward sl tp ep = None)"
  by (auto simp: check_exit_conditions_def calculate_risk_reward_def truthy_def Let_def)

text \<open>
  C10 at concrete inputs: a short position entered at 100 and quoted at 100 is not closed
  with a stop-loss of 0 (with a stop-loss of 1 it is, since 100 \<ge> 1), nor with a
  take-profit of 0; the risk-reward ratio is None with any of the three levels 0 or None,
  and 4 for stop 95, target 120 and entry 100.
\<close>

theorem zero_levels_are_absent_witness:
  "stop_loss (signal (short_with_levels (Some 0) (Some 90))) = Some 0
   \<and> check_exit_conditions 100 0 (short_with_levels (Some 0) (Some 90)) = (False, [])
   \<and> check_exit_conditions 100 0 (short_with_levels (Some 1) (Some 90)) = (True, ''stop_loss'')
   \<and> take_profit (signal (short_with_levels (Some 110) (Some 0))) = Some 0
   \<and> snd (check_exit_conditions 100 0 (short_with_levels (Some 110) (Some 0))) \<noteq> ''take_profit''
   \<and> calculate_risk_reward (Some 0) (Some 120) (Some 100) = None
   \<and> calculate_risk_reward (Some 95) (Some 0) (Some 100) = None
   \<and> calculate_risk_reward (Some 95) (Some 120) (Some 0) = None
   \<and> calculate_risk_reward None (Some 120) (Some 100) = None
   \<and> calculate_risk_reward (Some 95) (Some 120) (Some 100) = Some 4"
  using zero_levels_are_absent[of "short_with_levels (Some 0) (Some 90)" 100 0 "Some 0" "Some 120" "Some 100"]
    zero_levels_are_absent[of "short_with_levels (Some 110) (Some 0)" 100 0 "Some 95" "Some 0" "Some 100"]
    zero_levels_are_absent[of "short_with_levels (Some 110) (Some 0)" 100 0 "Some 95" "Some 120" "Some 0"]
    zero_levels_are_absent[of "short_with_levels (Some 110) (Some 0)" 100 0 None "Some 120" "Some 100"]
  by (simp add: short_with_levels_def example_signal_def Position_init_def
        check_exit_conditions_def truthy_def timedelta_hours_def calculate_risk_reward_def)

section \<open>Determinism of a backtest run\<close>

lemma run_rising:
  "map_sum id total_return
     (run_backtest (env_with rising_outcomes) [example_signal BUY 0.1] 0 (timedelta_minutes 5)
        100000 [''X'']) = Inr (1 / 500)"
  by (simp add: run_backtest_def env_with_def rising_outcomes_def MockMarketData_init_def
        timedelta_minutes_def signals_by_time_def example_signal_def closest_data_def
        generate_price_data_def normal_def uniform_def outcomes_def
        generate_loop.simps simulation_loop.simps
        Portfolio_init_def add_signal_def Let_def Position_init_def update_positions_def
        update_price_def check_exit_conditions_def truthy_def timedelta_hours_def
        calculate_current_equity_def calculate_results_def)

lemma run_falling:
  "map_sum id total_return
     (run_backtest (env_with falling_outcomes) [example_signal BUY 0.1] 0 (timedelta_minutes 5)
        100000 [''X'']) = Inr (- 1 / 500)"
  by (simp add: run_backtest_def env_with_def falling_outcomes_def MockMarketData_init_def
        timedelta_minutes_def signals_by_time_def example_signal_def closest_data_def
        generate_price_data_def normal_def uniform_def outcomes_def
        generate_loop.simps simulation_loop.simps
        Portfolio_init_def add_signal_def Let_def Position_init_def update_positions_def
        update_price_def check_exit_conditions_def truthy_def timedelta_hours_def
        calculate_current_equity_def calculate_results_def)

lemma run_timestamps_rising:
  "map_sum id (map ec_timestamp \<circ> bd_equity_curve \<circ> details)
     (run_backtest (env_clock c rising_outcomes) [example_signal BUY 0.1] 0 (timedelta_minutes 5)
        100000 [''X'']) = Inr [c, c]"
  by (simp add: run_backtest_def env_clock_def rising_outcomes_def MockMarketData_init_def
        timedelta_minutes_def signals_by_time_def example_signal_def closest_data_def
        generate_price_data_def normal_def uniform_def outcomes_def
        generate_loop.simps simulation_loop.simps
        Portfolio_init_def add_signal_def Let_def Position_init_def update_positions_def
        update_price_def check_exit_conditions_def truthy_def timedelta_hours_def
        calculate_current_equity_def calculate_results_def)

lemma run_timestamps_matching:
  "map_sum id (map ec_timestamp \<circ> bd_equity_curve \<circ> details)
     (run_backtest (env_clock c matching_outcomes) [example_signal BUY 0.1] 0 (timedelta_minutes 5)
        100000 [''X'']) = Inr [c, c]"
  by (simp add: run_backtest_def env_clock_def matching_outcomes_def MockMarketData_init_def
        timedelta_minutes_def signals_by_time_def example_signal_def closest_data_def
        generate_price_data_def normal_def uniform_def outcomes_def
        generate_loop.simps simulation_loop.simps
        Portfolio_init_def add_signal_def Let_def Position_init_def update_positions_def
        update_price_def check_exit_conditions_def truthy_def timedelta_hours_def
        calculate_current_equity_def calculate_results_def)

lemma generated_prices_rising:
  "generated_prices (env_clock c rising_outcomes) [example_signal BUY 0.1] 0 (timedelta_minutes 5) [''X'']
     = [''X'' \<mapsto> [(0, 100), (timedelta_minutes 5, 102)]]"
  by (simp add: generated_prices_def price_series_def quote_def env_clock_def rising_outcomes_def
        MockMarketData_init_def generate_price_data_def generate_loop.simps
        timedelta_minutes_def normal_def uniform_def outcomes_def Let_def fun_eq_iff)

lemma generated_prices_matching:
  "generated_prices (env_clock c matching_outcomes) [example_signal BUY 0.1] 0 (timedelta_minutes 5) [''X'']
     = [''X'' \<mapsto> [(0, 100), (timedelta_minutes 5, 102)]]"
  by (simp add: generated_prices_def price_series_def quote_def env_clock_def matching_outcomes_def
        MockMarketData_init_def generate_price_data_def generate_loop.simps
        timedelta_minutes_def normal_def uniform_def outcomes_def Let_def fun_eq_iff)

text \<open>
  C4 (as stated) fails: \<open>run_backtest\<close> builds its price series from the unseeded random
  generator and stamps the equity curve with the wall clock, so its arguments do not
  determine its result.  Two runs with the same signal, dates, capital and symbols, and the
  same clock readings, return a total return of 1/500 when the second tick's outcome moves X
  up and of -1/500 when it moves X down.  Two runs with the same arguments and the same
  random outcomes, one with the clock at 0 and one with the clock at 7, return equity curves
  stamped [0, 0] and [7, 7].
\<close>

theorem run_backtest_depends_on_random_outcomes:
  "clock_readings (env_with rising_outcomes) = clock_readings (env_with falling_outcomes)
   \<and> map_sum id total_return
        (run_backtest (env_with rising_outcomes) [example_signal BUY 0.1] 0 (timedelta_minutes 5)
           100000 [''X'']) = Inr (1 / 500)
   \<and> map_sum id total_return
        (run_backtest (env_with falling_outcomes) [example_signal BUY 0.1] 0 (timedelta_minutes 5)
           100000 [''X'']) = Inr (- 1 / 500)
   \<and> run_backtest (env_with rising_outcomes) [example_signal BUY 0.1] 0 (timedelta_minutes 5)
        100000 [''X'']
      \<noteq> run_backtest (env_with falling_outcomes) [example_signal BUY 0.1] 0 (timedelta_minutes 5)
          100000 [''X'']
   \<and> rng (env_clock 0 rising_outcomes) = rng (env_clock 7 rising_outcomes)
   \<and> map_sum id (map ec_timestamp \<circ> bd_equity_curve \<circ> details)
        (run_backtest (env_clock 0 rising_outcomes) [example_signal BUY 0.1] 0 (timedelta_minutes 5)
           100000 [''X'']) = Inr [0, 0]
   \<and> map_sum id (map ec_timestamp \<circ> bd_equity_curve \<circ> details)
        (run_backtest (env_clock 7 rising_outcomes) [example_signal BUY 0.1] 0 (timedelta_minutes 5)
           100000 [''X'']) = Inr [7, 7]
   \<and> run_backtest (env_clock 0 rising_outcomes) [example_signal BUY 0.1] 0 (timedelta_minutes 5)
        100000 [''X'']
      \<noteq> run_backtest (env_clock 7 rising_outcomes) [example_signal BUY 0.1] 0 (timedelta_minutes 5)
          100000 [''X'']"
proof -
  have a: "run_backtest (env_with rising_outcomes) [example_signal BUY 0.1] 0 (timedelta_minutes 5)
        100000 [''X'']
      \<noteq> run_backtest (env_with falling_outcomes) [example_signal BUY 0.1] 0 (timedelta_minutes 5)
          100000 [''X'']"
  proof
    assume "run_backtest (env_with rising_outcomes) [example_signal BUY 0.1] 0 (timedelta_minutes 5)
        100000 [''X'']
      = run_backtest (env_with falling_outcomes) [example_signal BUY 0.1] 0 (timedelta_minutes 5)
          100000 [''X'']"
    then have "(Inr (1 / 500) :: error + real) = Inr (- 1 / 500)"
      using run_rising run_falling by simp
    then show False by simp
  qed
  have b: "run_backtest (env_clock 0 rising_outcomes) [example_signal BUY 0.1] 0 (timedelta_minutes 5)
        100000 [''X'']
      \<noteq> run_backtest (env_clock 7 rising_outcomes) [example_signal BUY 0.1] 0 (timedelta_minutes 5)
          100000 [''X'']"
  proof
    assume "run_backtest (env_clock 0 rising_outcomes) [example_signal BUY 0.1] 0 (timedelta_minutes 5)
        100000 [''X'']
      = run_backtest (env_clock 7 rising_outcomes) [example_signal BUY 0.1] 0 (timedelta_minutes 5)
          100000 [''X'']"
    then have "(Inr [0, 0] :: error + datetime list) = Inr [7, 7]"
      using run_timestamps_rising[of 0] run_timestamps_rising[of 7] by simp
    then show False by simp
  qed
  have c: "clock_readings (env_with rising_outcomes) = clock_readings (env_with falling_outcomes)"
    "rng (env_clock 0 rising_outcomes) = rng (env_clock 7 rising_outcomes)"
    by (simp_all add: env_with_def env_clock_def)
  from a b c run_rising run_falling run_timestamps_rising[of 0] run_timestamps_rising[of 7]
  show ?thesis by blast
qed

subsection \<open>Independence of the clock, of the symbol order and of the volumes\<close>

lemma untimed_eqD:
  assumes "untimed p1 = untimed p2"
  shows "p2 = p1\<lparr> equity_curve := equity_curve p2 \<rparr>"
    and "map untimed_point (equity_curve p1) = map untimed_point (equity_curve p2)"
proof -
  from assms have "Portfolio.more (untimed p1) = Portfolio.more (untimed p2)"
    "initial_capital (untimed p1) = initial_capital (untimed p2)"
    "current_capital (untimed p1) = current_capital (untimed p2)"
    "positions (untimed p1) = positions (untimed p2)"
    "closed_positions (untimed p1) = closed_positions (untimed p2)"
    "daily_returns (untimed p1) = daily_returns (untimed p2)"
    "max_drawdown (untimed p1) = max_drawdown (untimed p2)"
    "peak_equity (untimed p1) = peak_equity (untimed p2)"
    "equity_curve (untimed p1) = equity_curve (untimed p2)"
    by simp_all
  then show "p2 = p1\<lparr> equity_curve := equity_curve p2 \<rparr>"
    and "map untimed_point (equity_curve p1) = map untimed_point (equity_curve p2)"
    by (simp_all add: untimed_def)
qed

lemma untimed_eqI:
  "map untimed_point ec1 = map untimed_point ec2 \<Longrightarrow>
     untimed (p\<lparr> equity_curve := ec1 \<rparr>) = untimed (p\<lparr> equity_curve := ec2 \<rparr>)"
  by (simp add: untimed_def)

lemma curve_positions_commute:
  "p\<lparr>equity_curve := ec, positions := ps\<rparr> = p\<lparr>positions := ps\<rparr>\<lparr>equity_curve := ec\<rparr>"
  by simp

lemma settle_frame:
  "settle_closed_position i (p\<lparr> equity_curve := ec \<rparr>)
     = (fst (settle_closed_position i p)\<lparr> equity_curve := ec \<rparr>, snd (settle_closed_position i p))"
  by (simp add: settle_closed_position_def Let_def)

lemma add_signal_frame:
  "add_signal sg cp (p\<lparr> equity_curve := ec \<rparr>)
     = (fst (add_signal sg cp p)\<lparr> equity_curve := ec \<rparr>, snd (add_signal sg cp p))"
  by (simp add: add_signal_def Let_def settle_frame case_prod_unfold curve_positions_commute
        split: option.split)

lemma process_signals_frame:
  "process_signals l cmd (p\<lparr> equity_curve := ec \<rparr>)
     = (fst (process_signals l cmd p)\<lparr> equity_curve := ec \<rparr>, snd (process_signals l cmd p))"
proof (induction l arbitrary: p)
  case Nil
  show ?case by simp
next
  case (Cons sg rest)
  show ?case
  proof (cases "cmd (asset sg)")
    case None
    then show ?thesis using Cons.IH by simp
  next
    case (Some d)
    obtain q r where a: "add_signal sg (price d) p = (q, r)" by (cases "add_signal sg (price d) p")
    show ?thesis
      using Some a Cons.IH[of q] by (cases r) (simp_all add: add_signal_frame)
  qed
qed

lemma update_loop_frame:
  "update_loop cmd snap i (p\<lparr> equity_curve := ec \<rparr>)
     = (fst (update_loop cmd snap i p)\<lparr> equity_curve := ec \<rparr>, snd (update_loop cmd snap i p))"
proof (induction snap arbitrary: i p)
  case Nil
  show ?case by simp
next
  case (Cons position rest)
  show ?case
  proof (cases "cmd (symbol position)")
    case None
    then show ?thesis using Cons.IH by simp
  next
    case (Some d)
    obtain q e where u: "update_price (price d) (md_timestamp d) position = (q, e)"
      by (cases "update_price (price d) (md_timestamp d) position")
    obtain s se where st: "settle_closed_position i (p\<lparr> positions := (positions p)[i := q] \<rparr>) = (s, se)"
      by (cases "settle_closed_position i (p\<lparr> positions := (positions p)[i := q] \<rparr>)")
    show ?thesis
    proof (cases e)
      case (Some err)
      then show ?thesis using \<open>cmd (symbol position) = Some d\<close> u by simp
    next
      case None
      show ?thesis
      proof (cases "is_closed q")
        case False
        then show ?thesis
          using \<open>cmd (symbol position) = Some d\<close> u None
            Cons.IH[of "Suc i" "p\<lparr> positions := (positions p)[i := q] \<rparr>"]
          by (simp add: Let_def curve_positions_commute)
      next
        case True
        then show ?thesis
          using \<open>cmd (symbol position) = Some d\<close> u None st Cons.IH[of i s]
          by (cases se) (simp_all add: Let_def curve_positions_commute settle_frame)
      qed
    qed
  qed
qed


lemma frame_untimed:
  fixes f :: "Portfolio \<Rightarrow> Portfolio \<times> 'a"
  assumes frame: "\<And>p ec. f (p\<lparr> equity_curve := ec \<rparr>)
                     = (fst (f p)\<lparr> equity_curve := ec \<rparr>, snd (f p))"
    and u: "untimed p1 = untimed p2"
  shows "untimed (fst (f p1)) = untimed (fst (f p2))" and "snd (f p1) = snd (f p2)"
proof -
  have curve: "equity_curve (fst (f p)) = equity_curve p" for p
    using frame[where p=p and ec="equity_curve p"] by (metis Portfolio.select_convs(5) Portfolio.surjective Portfolio.update_convs(5) fst_conv)
  have p2: "f p2 = (fst (f p1)\<lparr> equity_curve := equity_curve p2 \<rparr>, snd (f p1))"
    using frame[where p=p1 and ec="equity_curve p2"] untimed_eqD(1)[OF u] by simp
  show "snd (f p1) = snd (f p2)" using p2 by simp
  show "untimed (fst (f p1)) = untimed (fst (f p2))"
    using p2 untimed_eqD(2)[OF u] curve[of p1] by (simp add: untimed_def)
qed

lemma process_signals_quotes:
  assumes q: "\<And>s. map_option quote (cmd1 s) = map_option quote (cmd2 s)"
  shows "process_signals l cmd1 p = process_signals l cmd2 p"
proof (induction l arbitrary: p)
  case Nil
  show ?case by simp
next
  case (Cons sg rest)
  show ?case
  proof (cases "cmd1 (asset sg)")
    case None
    then have "cmd2 (asset sg) = None" using q[of "asset sg"] by simp
    with None show ?thesis using Cons.IH by simp
  next
    case (Some d)
    then obtain d' where d': "cmd2 (asset sg) = Some d'" "price d' = price d"
      using q[of "asset sg"] by (cases "cmd2 (asset sg)") (auto simp: quote_def)
    show ?thesis
      using Some d' Cons.IH by (simp split: prod.split sum.split)
  qed
qed

lemma update_loop_quotes:
  assumes q: "\<And>s. map_option quote (cmd1 s) = map_option quote (cmd2 s)"
  shows "update_loop cmd1 snap i p = update_loop cmd2 snap i p"
proof (induction snap arbitrary: i p)
  case Nil
  show ?case by simp
next
  case (Cons position rest)
  show ?case
  proof (cases "cmd1 (symbol position)")
    case None
    then have "cmd2 (symbol position) = None" using q[of "symbol position"] by simp
    with None show ?thesis using Cons.IH by simp
  next
    case (Some d)
    then obtain d' where d': "cmd2 (symbol position) = Some d'" "price d' = price d"
        "md_timestamp d' = md_timestamp d"
      using q[of "symbol position"] by (cases "cmd2 (symbol position)") (auto simp: quote_def)
    show ?thesis
      using Some d' Cons.IH
      by (simp add: Let_def split: prod.split option.split)
  qed
qed

lemma equity_loop_quotes:
  assumes q: "\<And>s. map_option quote (cmd1 s) = map_option quote (cmd2 s)"
  shows "equity_loop cmd1 c ps eq = equity_loop cmd2 c ps eq"
proof (induction ps arbitrary: eq)
  case Nil
  show ?case by simp
next
  case (Cons position rest)
  show ?case
  proof (cases "cmd1 (symbol position)")
    case None
    then have "cmd2 (symbol position) = None" using q[of "symbol position"] by simp
    with None show ?thesis using Cons.IH by simp
  next
    case (Some d)
    then obtain d' where d': "cmd2 (symbol position) = Some d'" "price d' = price d"
      using q[of "symbol position"] by (cases "cmd2 (symbol position)") (auto simp: quote_def)
    show ?thesis
      using Some d' Cons.IH by (simp add: Let_def)
  qed
qed

lemma update_positions_quotes:
  assumes q: "\<And>s. map_option quote (cmd1 s) = map_option quote (cmd2 s)"
  shows "update_positions cmd1 n p = update_positions cmd2 n p"
proof -
  have a: "update_loop cmd1 = update_loop cmd2"
    by (intro ext) (rule update_loop_quotes[OF q])
  have b: "calculate_current_equity cmd1 = calculate_current_equity cmd2"
    by (intro ext) (simp add: calculate_current_equity_def equity_loop_quotes[OF q])
  show ?thesis unfolding update_positions_def a b by (rule refl)
qed

lemma update_positions_clock:
  assumes u: "untimed p1 = untimed p2"
  shows "untimed (fst (update_positions cmd n1 p1)) = untimed (fst (update_positions cmd n2 p2))"
    and "snd (update_positions cmd n1 p1) = snd (update_positions cmd n2 p2)"
proof -
  obtain q1 e where l1: "update_loop cmd (positions p1) 0 p1 = (q1, e)"
    by (cases "update_loop cmd (positions p1) 0 p1")
  have c1: "equity_curve q1 = equity_curve p1"
    using update_loop_frame[where cmd=cmd and snap="positions p1" and i=0 and p=p1 and ec="equity_curve p1"] l1
    by (metis Portfolio.select_convs(5) Portfolio.surjective Portfolio.update_convs(5) fst_conv)
  have p2: "p2 = p1\<lparr> equity_curve := equity_curve p2 \<rparr>"
    and m: "map untimed_point (equity_curve p1) = map untimed_point (equity_curve p2)"
    using untimed_eqD[OF u] by simp_all
  have pos: "positions p2 = positions p1" using p2 by (metis Portfolio.select_convs(3) Portfolio.surjective Portfolio.update_convs(5))
  have l2: "update_loop cmd (positions p2) 0 p2 = (q1\<lparr> equity_curve := equity_curve p2 \<rparr>, e)"
    using update_loop_frame[where cmd=cmd and snap="positions p1" and i=0 and p=p1 and ec="equity_curve p2"] l1 p2 pos by simp
  have ce: "calculate_current_equity cmd (q1\<lparr> equity_curve := equity_curve p2 \<rparr>)
              = calculate_current_equity cmd q1"
    by (simp add: calculate_current_equity_def)
  have both: "untimed (fst (update_positions cmd n1 p1)) = untimed (fst (update_positions cmd n2 p2))
         \<and> snd (update_positions cmd n1 p1) = snd (update_positions cmd n2 p2)"
  proof (cases e)
    case (Some err)
    then show ?thesis using l1 l2 c1 m by (simp add: update_positions_def untimed_def)
  next
    case None
    show ?thesis
    proof (cases "calculate_current_equity cmd q1")
      case (Inl err)
      then show ?thesis using None l1 l2 c1 m ce by (simp add: update_positions_def untimed_def)
    next
      case (Inr current_equity)
      then show ?thesis using None l1 l2 c1 m ce
        by (simp add: update_positions_def untimed_def untimed_point_def Let_def)
    qed
  qed
  from both show "untimed (fst (update_positions cmd n1 p1)) = untimed (fst (update_positions cmd n2 p2))"
    and "snd (update_positions cmd n1 p1) = snd (update_positions cmd n2 p2)" by simp_all
qed


lemma closest_fold_quotes:
  "map quote r1 = map quote r2 \<Longrightarrow> quote x1 = quote x2 \<Longrightarrow>
     quote (fold (\<lambda>y best. if \<bar>md_timestamp y - d\<bar> < \<bar>md_timestamp best - d\<bar> then y else best) r1 x1)
       = quote (fold (\<lambda>y best. if \<bar>md_timestamp y - d\<bar> < \<bar>md_timestamp best - d\<bar> then y else best) r2 x2)"
proof (induction r1 arbitrary: r2 x1 x2)
  case Nil
  then show ?case by simp
next
  case (Cons y1 r1)
  then obtain y2 r2' where r2: "r2 = y2 # r2'" "quote y1 = quote y2" "map quote r1 = map quote r2'"
    by (cases r2) auto
  have t: "md_timestamp y1 = md_timestamp y2" "md_timestamp x1 = md_timestamp x2"
    using r2(2) Cons.prems(2) by (simp_all add: quote_def)
  show ?case
  proof (cases "\<bar>md_timestamp y1 - d\<bar> < \<bar>md_timestamp x1 - d\<bar>")
    case True
    then show ?thesis using r2(1) t Cons.IH[OF r2(3) r2(2)] by simp
  next
    case False
    then show ?thesis using r2(1) t Cons.IH[OF r2(3) Cons.prems(2)] by simp
  qed
qed

lemma closest_quotes:
  assumes "map quote l1 = map quote l2"
  shows "map_sum id quote (closest_data d l1) = map_sum id quote (closest_data d l2)"
proof (cases l1)
  case Nil
  then show ?thesis using assms by (simp add: closest_data_def)
next
  case (Cons x1 r1)
  then obtain x2 r2 where l2: "l2 = x2 # r2" "quote x1 = quote x2" "map quote r1 = map quote r2"
    using assms by (cases l2) auto
  show ?thesis
    using Cons l2(1) closest_fold_quotes[OF l2(3) l2(2)] by (simp add: closest_data_def)
qed

lemma current_market_char:
  "set syms \<subseteq> dom md \<Longrightarrow>
     current_market d md syms cmd0 =
       (if \<exists>s\<in>set syms. md s = Some [] then Inl ValueError
        else Inr (\<lambda>s. if s \<in> set syms then Some (projr (closest_data d (the (md s))))
                       else cmd0 s))"
proof (induction syms arbitrary: cmd0)
  case Nil
  show ?case by simp
next
  case (Cons a rest)
  then obtain l where l: "md a = Some l" by (metis domD list.set_intros(1) subsetD)
  have sub: "set rest \<subseteq> dom md" using Cons.prems by simp
  show ?case
  proof (cases l)
    case Nil
    then show ?thesis using l by (simp add: closest_data_def)
  next
    case (Cons x xs)
    then obtain c where c: "closest_data d l = Inr c" by (simp add: closest_data_def)
    have ne: "md a \<noteq> Some []" using l Cons by simp
    have step: "current_market d md (a # rest) cmd0 = current_market d md rest (cmd0(a \<mapsto> c))"
      using l c by simp
    have ex: "(\<exists>s\<in>set (a # rest). md s = Some []) \<longleftrightarrow> (\<exists>s\<in>set rest. md s = Some [])"
      using ne by auto
    have fn: "(\<lambda>s. if s \<in> set rest then Some (projr (closest_data d (the (md s))))
                   else (cmd0(a \<mapsto> c)) s)
            = (\<lambda>s. if s \<in> set (a # rest) then Some (projr (closest_data d (the (md s))))
                   else cmd0 s)"
      using l c by (auto simp: fun_eq_iff)
    show ?thesis
      unfolding step ex Cons.IH[OF sub, of "cmd0(a \<mapsto> c)"] fn by (rule refl)
  qed
qed

lemma current_market_related:
  assumes ps: "price_series md1 = price_series md2"
    and sy: "set syms1 = set syms2"
    and sub: "set syms1 \<subseteq> dom md1"
  shows "(\<exists>err. current_market d md1 syms1 Map.empty = Inl err
               \<and> current_market d md2 syms2 Map.empty = Inl err)
       \<or> (\<exists>c1 c2. current_market d md1 syms1 Map.empty = Inr c1
               \<and> current_market d md2 syms2 Map.empty = Inr c2
               \<and> (\<forall>s. map_option quote (c1 s) = map_option quote (c2 s)))"
proof -
  have q: "map_option (map quote) (md1 s) = map_option (map quote) (md2 s)" for s
    using ps by (simp add: price_series_def fun_eq_iff)
  have dm: "dom md1 = dom md2"
  proof (rule set_eqI)
    fix s show "s \<in> dom md1 \<longleftrightarrow> s \<in> dom md2"
      using q[of s] by (cases "md1 s"; cases "md2 s") auto
  qed
  have sub2: "set syms2 \<subseteq> dom md2" using sub sy dm by simp
  have emp: "md1 s = Some [] \<longleftrightarrow> md2 s = Some []" for s
    using q[of s] by (cases "md1 s"; cases "md2 s") auto
  have cl: "quote (projr (closest_data d (the (md1 s)))) = quote (projr (closest_data d (the (md2 s))))"
    if "s \<in> set syms1" "md1 s \<noteq> Some []" for s
  proof -
    have in1: "s \<in> dom md1" using that(1) sub by (rule subsetD[rotated])
    then have in2: "s \<in> dom md2" using dm by simp
    obtain l1 where l1: "md1 s = Some l1" using domD[OF in1] by (rule exE)
    obtain l2 where l2: "md2 s = Some l2" using domD[OF in2] by (rule exE)
    have m: "map quote l1 = map quote l2" using q[of s] l1 l2 by simp
    have "l1 \<noteq> []" using that(2) l1 by simp
    then obtain c1 where c1: "closest_data d l1 = Inr c1"
      by (cases l1) (simp_all add: closest_data_def)
    have "l2 \<noteq> []" using \<open>l1 \<noteq> []\<close> m by auto
    then obtain c2 where c2: "closest_data d l2 = Inr c2"
      by (cases l2) (simp_all add: closest_data_def)
    show ?thesis using closest_quotes[OF m, of d] l1 l2 c1 c2 by simp
  qed
  show ?thesis
  proof (cases "\<exists>s\<in>set syms1. md1 s = Some []")
    case True
    then have "\<exists>s\<in>set syms2. md2 s = Some []" using sy emp by auto
    with True show ?thesis
      by (simp only: current_market_char[OF sub] current_market_char[OF sub2] if_True) simp
  next
    case False
    then have f2: "\<not> (\<exists>s\<in>set syms2. md2 s = Some [])" using sy emp by auto
    have "\<forall>s. map_option quote (if s \<in> set syms1 then Some (projr (closest_data d (the (md1 s)))) else None)
            = map_option quote (if s \<in> set syms2 then Some (projr (closest_data d (the (md2 s)))) else None)"
      using cl False sy by auto
    with False f2 show ?thesis
      by (simp only: current_market_char[OF sub] current_market_char[OF sub2] if_False) simp
  qed
qed


lemma generate_step_dom_triple:
  "symbols (fst (generate_step d l (self, data, g))) = symbols self
   \<and> dom (fst (snd (generate_step d l (self, data, g)))) = dom data \<union> set l"
proof (induction l arbitrary: self data g)
  case Nil
  show ?case by simp
next
  case (Cons s rest)
  show ?case
    by (simp add: Let_def case_prod_unfold Cons.IH) (auto simp: dom_def)
qed

lemma generate_step_dom:
  "symbols (fst (generate_step d l st)) = symbols (fst st)
   \<and> dom (fst (snd (generate_step d l st))) = dom (fst (snd st)) \<union> set l"
  using generate_step_dom_triple[of d l "fst st" "fst (snd st)" "snd (snd st)"] by simp

lemma generate_loop_dom:
  "dom (fst (snd (generate_loop c e st)))
     = dom (fst (snd st)) \<union> (if c \<le> e then set (symbols (fst st)) else {})"
proof (induction c e st rule: generate_loop.induct)
  case (1 current_date end_date st)
  show ?case
  proof (cases "current_date \<le> end_date")
    case False
    then show ?thesis by (subst generate_loop.simps) simp
  next
    case True
    show ?thesis
      using True 1[OF True] generate_step_dom[of current_date "symbols (fst st)" st]
      by (subst generate_loop.simps) auto
  qed
qed

lemma initial_data_dom:
  "dom (fold (\<lambda>s m. m(s \<mapsto> [])) l m0) = dom m0 \<union> set l"
  by (induction l arbitrary: m0) auto

lemma generate_price_data_dom:
  "dom (generate_price_data start_d end_d self g) = set (symbols self)"
  by (simp add: generate_price_data_def generate_loop_dom initial_data_dom)

lemma MockMarketData_init_symbols:
  "symbols (fst (MockMarketData_init syms g)) = syms"
  by (simp add: MockMarketData_init_def case_prod_unfold Let_def)

lemma price_series_dom: "dom (price_series md) = dom md"
  by (auto simp: price_series_def dom_def)


lemma simulation_related:
  "price_series md1 = price_series md2 \<Longrightarrow> set syms1 = set syms2 \<Longrightarrow> set syms1 \<subseteq> dom md1
   \<Longrightarrow> untimed p1 = untimed p2 \<Longrightarrow>
     untimed (fst (simulation_loop c e syms1 md1 bt clock1 p1))
       = untimed (fst (simulation_loop c e syms2 md2 bt clock2 p2))
     \<and> snd (simulation_loop c e syms1 md1 bt clock1 p1)
       = snd (simulation_loop c e syms2 md2 bt clock2 p2)"
proof (induction c e syms1 md1 bt clock1 p1 arbitrary: clock2 p2 rule: simulation_loop.induct)
  case (1 c e syms1 md1 bt clock1 p1)
  note ps = "1.prems"(1) and sy = "1.prems"(2) and sub = "1.prems"(3) and u = "1.prems"(4)
  show ?case
  proof (cases "c \<le> e")
    case False
    then show ?thesis
      using u by (simp add: simulation_loop.simps[of c e])
  next
    case True
    define l where "l = (case bt c of None \<Rightarrow> [] | Some l \<Rightarrow> l)"
    from current_market_related[OF ps sy sub, where d=c]
    show ?thesis
    proof (elim disjE exE conjE)
      fix err
      assume "current_market c md1 syms1 Map.empty = Inl err"
        "current_market c md2 syms2 Map.empty = Inl err"
      then show ?thesis
        using True u by (simp add: simulation_loop.simps[of c e])
    next
      fix c1 c2
      assume cm1: "current_market c md1 syms1 Map.empty = Inr c1"
        and cm2: "current_market c md2 syms2 Map.empty = Inr c2"
        and q: "\<forall>s. map_option quote (c1 s) = map_option quote (c2 s)"
      have q': "\<And>s. map_option quote (c2 s) = map_option quote (c1 s)" using q by simp
      obtain q1 e1 where a1: "process_signals l c1 p1 = (q1, e1)"
        by (cases "process_signals l c1 p1")
      obtain q2 e2 where a2: "process_signals l c2 p2 = (q2, e2)"
        by (cases "process_signals l c2 p2")
      have a2': "process_signals l c1 p2 = (q2, e2)"
        using a2 process_signals_quotes[OF q', where l=l and p=p2] by simp
      have uq: "untimed q1 = untimed q2" and ee: "e1 = e2"
        using frame_untimed[where f="process_signals l c1", OF process_signals_frame u] a1 a2'
        by simp_all
      show ?thesis
      proof (cases e1)
        case (Some err)
        then show ?thesis
          using True cm1 cm2 a1 a2 uq ee
          by (simp add: simulation_loop.simps[of c e] l_def[symmetric])
      next
        case None
        obtain r1 f1 where b1: "update_positions c1 (shd clock1) q1 = (r1, f1)"
          by (cases "update_positions c1 (shd clock1) q1")
        obtain r2 f2 where b2: "update_positions c2 (shd clock2) q2 = (r2, f2)"
          by (cases "update_positions c2 (shd clock2) q2")
        have b2': "update_positions c1 (shd clock2) q2 = (r2, f2)"
          using b2 update_positions_quotes[OF q', where n="shd clock2" and p=q2] by simp
        have ur: "untimed r1 = untimed r2" and ff: "f1 = f2"
          using update_positions_clock[OF uq, where cmd=c1 and ?n1.0="shd clock1" and ?n2.0="shd clock2"] b1 b2'
          by simp_all
        show ?thesis
        proof (cases f1)
          case (Some err)
          then show ?thesis
            using True cm1 cm2 a1 a2 b1 b2 None ee ur ff
            by (simp add: simulation_loop.simps[of c e] l_def[symmetric])
        next
          case f1n: None
          have ih: "untimed (fst (simulation_loop (c + timedelta_minutes 5) e syms1 md1 bt (stl clock1) r1))
                      = untimed (fst (simulation_loop (c + timedelta_minutes 5) e syms2 md2 bt (stl clock2) r2))
                    \<and> snd (simulation_loop (c + timedelta_minutes 5) e syms1 md1 bt (stl clock1) r1)
                      = snd (simulation_loop (c + timedelta_minutes 5) e syms2 md2 bt (stl clock2) r2)"
            using "1.IH"[OF True cm1 _ _ _ _ ps sy sub ur, of q1 e1 f1 "stl clock2"]
              a1 b1 None f1n l_def by simp
          show ?thesis
            using True cm1 cm2 a1 a2 b1 b2 None f1n ee ff ih
            by (simp add: simulation_loop.simps[of c e] l_def[symmetric])
        qed
      qed
    qed
  qed
qed

lemma calculate_results_untimed:
  assumes u: "untimed p1 = untimed p2"
  shows "map_sum id untimed_result (calculate_results s e p1)
           = map_sum id untimed_result (calculate_results s e p2)"
proof -
  have p2: "p2 = p1\<lparr> equity_curve := equity_curve p2 \<rparr>"
    and m: "map untimed_point (equity_curve p1) = map untimed_point (equity_curve p2)"
    using untimed_eqD[OF u] by simp_all
  have ne: "equity_curve p1 = [] \<longleftrightarrow> equity_curve p2 = []"
    using m by (metis map_is_Nil_conv)
  have lst: "equity (last (equity_curve p1)) = equity (last (equity_curve p2))"
  proof (cases "equity_curve p1 = []")
    case True
    then show ?thesis using ne by simp
  next
    case False
    then have "equity_curve p2 \<noteq> []" using ne by simp
    have "equity (last (equity_curve p1)) = equity (last (map untimed_point (equity_curve p1)))"
      using False by (simp add: last_map untimed_point_def)
    also have "\<dots> = equity (last (map untimed_point (equity_curve p2)))" using m by simp
    also have "\<dots> = equity (last (equity_curve p2))"
      using \<open>equity_curve p2 \<noteq> []\<close> by (simp add: last_map untimed_point_def)
    finally show ?thesis .
  qed
  have "map_sum id untimed_result (calculate_results s e (p1\<lparr> equity_curve := equity_curve p2 \<rparr>))
          = map_sum id untimed_result (calculate_results s e p1)"
    using ne lst m by (simp add: calculate_results_def Let_def untimed_result_def)
  then show ?thesis using p2 by simp
qed


text \<open>
  C4, amended.  Two runs of \<open>run_backtest\<close> with identical arguments return the same
  outcome (the same exception, or results that agree in every field) apart from the
  wall-clock timestamps of the equity-curve points, whenever the price series generated for
  them (per symbol, the timestamps and prices) coincide.  The random generator reaches the
  result through the generated prices only: the volumes and 24h changes it draws, the order
  in which the symbols of a set are listed, and the clock do not reach any other field.
\<close>

theorem run_backtest_determined_by_prices:
  assumes "generated_prices env1 signals start_d end_d symbols_arg
             = generated_prices env2 signals start_d end_d symbols_arg"
  shows "map_sum id untimed_result (run_backtest env1 signals start_d end_d capital symbols_arg)
           = map_sum id untimed_result (run_backtest env2 signals start_d end_d capital symbols_arg)"
proof -
  define syms1 where "syms1 = (if symbols_arg = [] then set_order env1 (set (map asset signals))
                               else symbols_arg)"
  define syms2 where "syms2 = (if symbols_arg = [] then set_order env2 (set (map asset signals))
                               else symbols_arg)"
  obtain gen1 g1 where i1: "MockMarketData_init syms1 (rng env1) = (gen1, g1)"
    by (cases "MockMarketData_init syms1 (rng env1)")
  obtain gen2 g2 where i2: "MockMarketData_init syms2 (rng env2) = (gen2, g2)"
    by (cases "MockMarketData_init syms2 (rng env2)")
  define md1 where "md1 = generate_price_data start_d end_d gen1 g1"
  define md2 where "md2 = generate_price_data start_d end_d gen2 g2"
  have ps: "price_series md1 = price_series md2"
    using assms i1 i2 by (simp add: generated_prices_def Let_def syms1_def syms2_def md1_def md2_def)
  have s1: "symbols gen1 = syms1" using MockMarketData_init_symbols[of syms1 "rng env1"] i1 by simp
  have s2: "symbols gen2 = syms2" using MockMarketData_init_symbols[of syms2 "rng env2"] i2 by simp
  have d1: "dom md1 = set syms1" by (simp add: md1_def generate_price_data_dom s1)
  have d2: "dom md2 = set syms2" by (simp add: md2_def generate_price_data_dom s2)
  have "dom md1 = dom md2" using ps price_series_dom by metis
  then have sy: "set syms1 = set syms2" using d1 d2 by simp
  have sub: "set syms1 \<subseteq> dom md1" using d1 by simp
  obtain r1 e1 where sim1: "simulation_loop start_d end_d syms1 md1 (signals_by_time signals)
      (clock_readings env1) (Portfolio_init capital) = (r1, e1)"
    by (cases "simulation_loop start_d end_d syms1 md1 (signals_by_time signals)
      (clock_readings env1) (Portfolio_init capital)")
  obtain r2 e2 where sim2: "simulation_loop start_d end_d syms2 md2 (signals_by_time signals)
      (clock_readings env2) (Portfolio_init capital) = (r2, e2)"
    by (cases "simulation_loop start_d end_d syms2 md2 (signals_by_time signals)
      (clock_readings env2) (Portfolio_init capital)")
  have ur: "untimed r1 = untimed r2" and ee: "e1 = e2"
    using simulation_related[OF ps sy sub refl, where c=start_d and e=end_d
        and bt="signals_by_time signals" and ?clock1.0="clock_readings env1"
        and ?clock2.0="clock_readings env2" and ?p1.0="Portfolio_init capital"] sim1 sim2
    by simp_all
  have run1: "run_backtest env1 signals start_d end_d capital symbols_arg
                = (case e1 of Some err \<Rightarrow> Inl err | None \<Rightarrow> calculate_results start_d end_d r1)"
    using i1 sim1 by (simp add: run_backtest_def Let_def syms1_def md1_def)
  have run2: "run_backtest env2 signals start_d end_d capital symbols_arg
                = (case e2 of Some err \<Rightarrow> Inl err | None \<Rightarrow> calculate_results start_d end_d r2)"
    using i2 sim2 by (simp add: run_backtest_def Let_def syms2_def md2_def)
  show ?thesis
    unfolding run1 run2 using ee calculate_results_untimed[OF ur, of start_d end_d]
    by (cases e2) simp_all
qed

text \<open>
  The amended C4 at concrete inputs: two environments whose generators draw different
  initial prices, volatilities and changes, and whose clocks read 0 and 7, generate the same
  price series 100, 102 for X; the two results differ, and agree once the equity-curve
  timestamps are set aside.
\<close>

theorem run_backtest_determined_by_prices_witness:
  "generated_prices (env_clock 0 rising_outcomes) [example_signal BUY 0.1] 0 (timedelta_minutes 5) [''X'']
     = generated_prices (env_clock 7 matching_outcomes) [example_signal BUY 0.1] 0
         (timedelta_minutes 5) [''X'']
   \<and> shd (rng (env_clock 0 rising_outcomes)) \<noteq> shd (rng (env_clock 7 matching_outcomes))
   \<and> shd (clock_readings (env_clock 0 rising_outcomes))
       \<noteq> shd (clock_readings (env_clock 7 matching_outcomes))
   \<and> map_sum id (map ec_timestamp \<circ> bd_equity_curve \<circ> details)
        (run_backtest (env_clock 0 rising_outcomes) [example_signal BUY 0.1] 0 (timedelta_minutes 5)
           100000 [''X'']) = Inr [0, 0]
   \<and> map_sum id (map ec_timestamp \<circ> bd_equity_curve \<circ> details)
        (run_backtest (env_clock 7 matching_outcomes) [example_signal BUY 0.1] 0 (timedelta_minutes 5)
           100000 [''X'']) = Inr [7, 7]
   \<and> map_sum id untimed_result
        (run_backtest (env_clock 0 rising_outcomes) [example_signal BUY 0.1] 0 (timedelta_minutes 5)
           100000 [''X''])
      = map_sum id untimed_result
          (run_backtest (env_clock 7 matching_outcomes) [example_signal BUY 0.1] 0
             (timedelta_minutes 5) 100000 [''X''])"
proof -
  have g: "generated_prices (env_clock 0 rising_outcomes) [example_signal BUY 0.1] 0
             (timedelta_minutes 5) [''X'']
           = generated_prices (env_clock 7 matching_outcomes) [example_signal BUY 0.1] 0
               (timedelta_minutes 5) [''X'']"
    by (simp only: generated_prices_rising generated_prices_matching)
  have d: "shd (rng (env_clock 0 rising_outcomes)) \<noteq> shd (rng (env_clock 7 matching_outcomes))"
    "shd (clock_readings (env_clock 0 rising_outcomes))
       \<noteq> shd (clock_readings (env_clock 7 matching_outcomes))"
    by (simp_all add: env_clock_def outcomes_def rising_outcomes_def matching_outcomes_def)
  from run_backtest_determined_by_prices[OF g, of 100000] g d
    run_timestamps_rising[of 0] run_timestamps_matching[of 7]
  show ?thesis by simp
qed

end
